theory Spec2Isabelle
  imports Complex_Main "HOL-Library.Char_ord" "HOL-Library.List_Lexorder"
begin

section \<open>Errors and upstream payloads\<close>

text \<open>
  Exceptions of the Python code are values. \<open>UpstreamUnavailable\<close> stands for whatever a
  \<open>GonkaClient\<close> call raises when no base URL answers, \<open>InvalidHeight\<close> for the
  \<open>ValueError\<close> that \<open>get_canonical_height\<close> raises for a height before the start of
  the epoch, \<open>ValueError\<close> for a failed \<open>int(...)\<close>, \<open>ValidationError\<close> for a
  pydantic model that rejects its arguments (a missing key included), and
  \<open>IntegrityError\<close> for a violated primary key of the SQLite store.
\<close>

datatype error =
    UpstreamUnavailable
  | InvalidHeight
  | ValueError
  | ZeroDivisionError
  | OverflowError
  | ValidationError
  | IntegrityError

text \<open>
  The JSON object under \<open>latest_info\<close>: \<open>latest_epoch.index\<close> and
  \<open>epoch_stages.next_poc_start\<close>.
\<close>

record latest_info =
  latest_epoch_index :: int
  next_poc_start :: int

text \<open>
  One ML node of an epoch participant (\<open>node_id\<close>, \<open>poc_weight\<close>, either may be
  missing) and the wrapper objects that hold them under \<open>ml_nodes\<close>.
\<close>

record ml_node_json =
  node_id :: "string option"
  node_poc_weight :: "int option"

record epoch_participant =
  ep_index :: string
  ep_weight :: "int option"
  ep_models :: "string list option"
  ep_validator_key :: "string option"
  ep_seed_signature :: "string option"
  ep_ml_nodes :: "ml_node_json list list"

text \<open>The object under \<open>active_participants\<close> of an epoch group answer.\<close>

record epoch_group =
  epoch_group_id :: int
  effective_block_height :: int
  eg_participants :: "epoch_participant list"

text \<open>
  \<open>CurrentEpochStats\<close> of \<open>models.py\<close>: seven counters, carried as strings.
\<close>

record CurrentEpochStats =
  inference_count :: string
  missed_requests :: string
  earned_coins :: string
  rewarded_coins :: string
  burned_coins :: string
  validated_inferences :: string
  invalidated_inferences :: string

text \<open>
  One element of the \<open>participant\<close> list of the all-participants answer. \<open>address\<close>
  and \<open>current_epoch_stats\<close> are read with \<open>p[...]\<close>, so their absence (or a value
  that the pydantic model rejects) is \<open>None\<close> here and makes the constructor raise.
\<close>

record participant_json =
  p_index :: string
  p_address :: "string option"
  p_inference_url :: "string option"
  p_status :: "string option"
  p_current_epoch_stats :: "CurrentEpochStats option"

text \<open>The object under \<open>epochPerformanceSummary\<close>; both keys are read with a default.\<close>

record perf_summary =
  perf_rewarded_coins :: "string option"
  perf_claimed :: "bool option"

record warm_key =
  grantee_address :: string
  granted_at :: string

record hardware_node =
  hw_local_id :: "string option"
  hw_status :: "string option"
  hw_models :: "string list"
  hw_hardware :: "(string \<times> int) list"
  hw_host :: "string option"
  hw_port :: "string option"
  hw_poc_weight :: "int option"

text \<open>
  The upstream client, as the answers it gives while one service call runs. A failed call
  is \<open>Inl\<close> of the exception. The client keeps no state that the service reads.
\<close>

record client =
  get_latest_epoch :: "error + latest_info"
  get_latest_height :: "error + int"
  get_current_epoch_participants :: "error + epoch_group"
  get_epoch_participants :: "int \<Rightarrow> error + epoch_group"
  get_all_participants :: "int \<Rightarrow> error + participant_json list"
  get_epoch_performance_summary :: "int \<Rightarrow> string \<Rightarrow> error + perf_summary"
  get_authz_grants :: "string \<Rightarrow> error + warm_key list"
  client_get_hardware_nodes :: "string \<Rightarrow> error + hardware_node list"

section \<open>Canonical height\<close>

text \<open>
  \<open>InferenceService.get_canonical_height\<close>. For the current epoch the requested height
  is returned when it is truthy (given and not 0), else the chain height. For any other
  epoch the canonical height is the next epoch's effective height minus 10, or
  \<open>next_poc_start - 10\<close> when fetching the next epoch raises; the check against the
  epoch's own effective height comes before the clamp.
\<close>

definition get_canonical_height :: "client \<Rightarrow> int \<Rightarrow> int option \<Rightarrow> error + int" where
  "get_canonical_height c epoch_id requested_height =
    (case get_latest_epoch c of
       Inl e \<Rightarrow> Inl e
     | Inr latest \<Rightarrow>
        if epoch_id = latest_epoch_index latest then
          (case get_latest_height c of
             Inl e \<Rightarrow> Inl e
           | Inr current_height \<Rightarrow>
               Inr (case requested_height of
                      None \<Rightarrow> current_height
                    | Some h \<Rightarrow> if h \<noteq> 0 then h else current_height))
        else
          (case get_epoch_participants c epoch_id of
             Inl e \<Rightarrow> Inl e
           | Inr epoch_data \<Rightarrow>
               let effective_height = effective_block_height epoch_data;
                   canonical_height =
                     (case get_epoch_participants c (epoch_id + 1) of
                        Inr next_epoch_data \<Rightarrow> effective_block_height next_epoch_data - 10
                      | Inl _ \<Rightarrow> next_poc_start latest - 10)
               in case requested_height of
                    None \<Rightarrow> Inr canonical_height
                  | Some h \<Rightarrow>
                      if h < effective_height then Inl InvalidHeight
                      else if h \<ge> canonical_height then Inr canonical_height
                      else Inr h))"

text \<open>
  The canonical height of a historical epoch as the specification words it: the next
  epoch's effective height minus 10, or \<open>next_poc_start - 10\<close> when the next epoch
  cannot be fetched.
\<close>

definition canonical_height_of :: "client \<Rightarrow> latest_info \<Rightarrow> int \<Rightarrow> int" where
  "canonical_height_of c latest epoch_id =
    (case get_epoch_participants c (epoch_id + 1) of
       Inr next_epoch_data \<Rightarrow> effective_block_height next_epoch_data - 10
     | Inl _ \<Rightarrow> next_poc_start latest - 10)"

text \<open>An upstream that knows the epochs listed, with the latest epoch and chain height given.\<close>

definition epoch_of :: "int \<Rightarrow> int \<Rightarrow> epoch_group" where
  "epoch_of i h = \<lparr>epoch_group_id = i, effective_block_height = h, eg_participants = []\<rparr>"

definition chain :: "int \<Rightarrow> int \<Rightarrow> int \<Rightarrow> (int \<times> int) list \<Rightarrow> client" where
  "chain latest poc height epochs =
    \<lparr>get_latest_epoch = Inr \<lparr>latest_epoch_index = latest, next_poc_start = poc\<rparr>,
     get_latest_height = Inr height,
     get_current_epoch_participants =
       (case map_of epochs latest of
          Some h \<Rightarrow> Inr (epoch_of latest h) | None \<Rightarrow> Inl UpstreamUnavailable),
     get_epoch_participants =
       (\<lambda>i. case map_of epochs i of
          Some h \<Rightarrow> Inr (epoch_of i h) | None \<Rightarrow> Inl UpstreamUnavailable),
     get_all_participants = (\<lambda>_. Inr []),
     get_epoch_performance_summary = (\<lambda>_ _. Inl UpstreamUnavailable),
     get_authz_grants = (\<lambda>_. Inr []),
     client_get_hardware_nodes = (\<lambda>_. Inr [])\<rparr>"

section \<open>Integers from strings, and Python floats\<close>

text \<open>
  \<open>int(s)\<close> on a string, the string being a list of code points below 256. Whitespace
  is stripped at both ends: the six ASCII characters that C's \<open>isspace\<close> accepts and,
  of the other code points below 256, the two that are Unicode whitespace (133 and 160).
  The separators 28 to 31, which \<open>str.isspace\<close> accepts, are not stripped. Then one sign
  is allowed, then decimal digits with single underscores between digits; below 256
  only the ASCII digits are decimal digits. More than \<open>max_str_digits\<close> digits are
  refused: 4300 is the interpreter's default (\<open>sys.get_int_max_str_digits()\<close>); signs,
  underscores and whitespace do not count, leading zeros do. Anything else raises
  \<open>ValueError\<close> as well.
\<close>

definition is_py_space :: "char \<Rightarrow> bool" where
  "is_py_space ch = (of_char ch \<in> {9, 10, 11, 12, 13, 32, 133, 160 :: nat})"

definition max_str_digits :: nat where
  "max_str_digits = 4300"

definition digit_val :: "char \<Rightarrow> nat option" where
  "digit_val ch =
    (let n = of_char ch :: nat in if 48 \<le> n \<and> n \<le> 57 then Some (n - 48) else None)"

fun digits_acc :: "nat \<Rightarrow> string \<Rightarrow> nat option" where
  "digits_acc acc [] = Some acc"
| "digits_acc acc [ch] = (case digit_val ch of Some v \<Rightarrow> Some (10 * acc + v) | None \<Rightarrow> None)"
| "digits_acc acc (ch # d # ds) =
     (if ch = CHR ''_'' then
        (case digit_val d of Some v \<Rightarrow> digits_acc (10 * acc + v) ds | None \<Rightarrow> None)
      else
        (case digit_val ch of Some v \<Rightarrow> digits_acc (10 * acc + v) (d # ds) | None \<Rightarrow> None))"

definition py_digits :: "string \<Rightarrow> nat option" where
  "py_digits s =
    (case s of
       [] \<Rightarrow> None
     | ch # cs \<Rightarrow>
        if max_str_digits < length (filter (\<lambda>d. d \<noteq> CHR ''_'') s) then None
        else (case digit_val ch of Some v \<Rightarrow> digits_acc v cs | None \<Rightarrow> None))"

definition py_strip :: "string \<Rightarrow> string" where
  "py_strip s = rev (dropWhile is_py_space (rev (dropWhile is_py_space s)))"

definition py_int :: "string \<Rightarrow> error + int" where
  "py_int s =
    (case py_strip s of
       [] \<Rightarrow> Inl ValueError
     | ch # cs \<Rightarrow>
        if ch = CHR ''-'' then
          (case py_digits cs of Some n \<Rightarrow> Inr (- int n) | None \<Rightarrow> Inl ValueError)
        else if ch = CHR ''+'' then
          (case py_digits cs of Some n \<Rightarrow> Inr (int n) | None \<Rightarrow> Inl ValueError)
        else
          (case py_digits (ch # cs) of Some n \<Rightarrow> Inr (int n) | None \<Rightarrow> Inl ValueError))"

text \<open>
  A finite Python float is the real number it denotes. \<open>nearest_double a b\<close> is the
  binary64 number nearest to \<open>a / b\<close> (53 significant bits, least exponent \<open>-1074\<close>, ties
  to the even significand) with no upper bound on the exponent; \<open>ilog2 a b\<close> is the
  integer part of the binary logarithm of \<open>a / b\<close>, found from the bit lengths.
\<close>

fun bitlen :: "nat \<Rightarrow> nat" where
  "bitlen n = (if n = 0 then 0 else Suc (bitlen (n div 2)))"

declare bitlen.simps [simp del]

definition pow2 :: "int \<Rightarrow> real" where
  "pow2 k = (if 0 \<le> k then 2 ^ nat k else 1 / 2 ^ nat (- k))"

definition round_half_even :: "real \<Rightarrow> int" where
  "round_half_even x =
    (let f = \<lfloor>x\<rfloor>; d = x - of_int f
     in if d < 1 / 2 then f else if 1 / 2 < d then f + 1 else if even f then f else f + 1)"

definition ilog2 :: "nat \<Rightarrow> nat \<Rightarrow> int" where
  "ilog2 a b =
    (let d = int (bitlen a) - int (bitlen b)
     in if pow2 d * of_nat b \<le> of_nat a then d else d - 1)"

definition nearest_double :: "int \<Rightarrow> int \<Rightarrow> real" where
  "nearest_double a b =
    (if a = 0 then 0
     else let e = max (ilog2 (nat \<bar>a\<bar>) (nat \<bar>b\<bar>) - 52) (- 1074)
          in of_int (round_half_even (of_int a / of_int b / pow2 e)) * pow2 e)"

text \<open>
  \<open>a / b\<close> on Python integers: the correctly rounded quotient, \<open>ZeroDivisionError\<close> for
  a zero divisor and \<open>OverflowError\<close> when the quotient is too large for a float.
\<close>

definition py_truediv :: "int \<Rightarrow> int \<Rightarrow> error + real" where
  "py_truediv a b =
    (if b = 0 then Inl ZeroDivisionError
     else let r = nearest_double a b
          in if 2 ^ 1024 \<le> \<bar>r\<bar> then Inl OverflowError else Inr r)"

text \<open>
  \<open>round(x, ndigits)\<close> on a float, for a small non-negative \<open>ndigits\<close>: the exact value
  of \<open>x\<close> is rounded to that many decimals, ties to even, and the float nearest to the
  decimal is returned.
\<close>

definition py_round :: "real \<Rightarrow> nat \<Rightarrow> real" where
  "py_round x ndigits = nearest_double (round_half_even (x * 10 ^ ndigits)) (10 ^ ndigits)"

section \<open>Participant statistics\<close>

text \<open>
  \<open>ParticipantStats\<close> of \<open>models.py\<close>. The jail, health and validator-profile fields
  that \<open>merge_jail_and_health_data\<close> fills in are left out.
\<close>

record ParticipantStats =
  index :: string
  address :: string
  weight :: int
  validator_key :: "string option"
  inference_url :: "string option"
  status :: "string option"
  models :: "string list"
  current_epoch_stats :: CurrentEpochStats

definition missed_rate :: "ParticipantStats \<Rightarrow> error + real" where
  "missed_rate self =
    (case py_int (missed_requests (current_epoch_stats self)) of
       Inl e \<Rightarrow> Inl e
     | Inr missed \<Rightarrow>
        (case py_int (inference_count (current_epoch_stats self)) of
           Inl e \<Rightarrow> Inl e
         | Inr inferences \<Rightarrow>
            let total = missed + inferences
            in if total = 0 then Inr 0
               else (case py_truediv missed total of
                       Inl e \<Rightarrow> Inl e
                     | Inr q \<Rightarrow> Inr (py_round q 4))))"

definition invalidation_rate :: "ParticipantStats \<Rightarrow> error + real" where
  "invalidation_rate self =
    (case py_int (invalidated_inferences (current_epoch_stats self)) of
       Inl e \<Rightarrow> Inl e
     | Inr invalidated \<Rightarrow>
        (case py_int (inference_count (current_epoch_stats self)) of
           Inl e \<Rightarrow> Inl e
         | Inr inferences \<Rightarrow>
            if inferences = 0 then Inr 0
            else (case py_truediv invalidated inferences of
                    Inl e \<Rightarrow> Inl e
                  | Inr q \<Rightarrow> Inr (py_round q 4))))"

text \<open>
  \<open>InferenceResponse\<close> of \<open>models.py\<close>, without the timestamp \<open>cached_at\<close> and without
  the five optional block fields, which the service never sets.
\<close>

record InferenceResponse =
  resp_epoch_id :: int
  resp_height :: int
  resp_participants :: "ParticipantStats list"
  resp_is_current :: bool
  resp_total_assigned_rewards_gnk :: "int option"

section \<open>The cache store\<close>

text \<open>
  \<open>CacheDB\<close> of \<open>database.py\<close>, with the tables the service functions below read or
  write. A table whose query returns several rows is the list of its rows in insertion
  order; a table read one row at a time is a map from its primary key. The timestamp
  columns (\<open>cached_at\<close>, \<open>marked_at\<close>, \<open>last_updated\<close>, \<open>calculated_at\<close>) are left
  out, and so are the tables \<open>jail_status\<close> and \<open>node_health\<close>. Failures of the
  database itself are not modelled, except the primary-key violations of the two plain
  \<open>INSERT\<close> statements.

  A row of \<open>inference_stats\<close> holds the dictionary that the fetch built: the upstream
  participant object plus \<open>weight\<close>, \<open>models\<close>, \<open>validator_key\<close>,
  \<open>seed_signature\<close> and \<open>_ml_nodes_map\<close>.
\<close>

record stats_dict =
  sd_participant :: participant_json
  sd_weight :: int
  sd_models :: "string list"
  sd_validator_key :: "string option"
  sd_seed_signature :: "string option"
  sd_ml_nodes_map :: "string \<rightharpoonup> int"

record stats_row =
  sr_epoch_id :: int
  sr_height :: int
  sr_participant_index :: string
  sr_stats :: stats_dict

record reward =
  reward_epoch_id :: int
  reward_participant_id :: string
  reward_rewarded_coins :: string
  reward_claimed :: bool

record warm_key_row =
  wk_epoch_id :: int
  wk_participant_id :: string
  wk_key :: warm_key

record hardware_row =
  hr_epoch_id :: int
  hr_participant_id :: string
  hr_node :: hardware_node

record CacheDB =
  inference_stats :: "stats_row list"
  epoch_status :: "int \<rightharpoonup> bool \<times> int"
  participant_rewards :: "int \<times> string \<rightharpoonup> string \<times> bool"
  participant_warm_keys :: "warm_key_row list"
  participant_hardware_nodes :: "hardware_row list"
  epoch_total_rewards :: "int \<rightharpoonup> int"

definition empty_db :: CacheDB where
  "empty_db =
    \<lparr>inference_stats = [], epoch_status = Map.empty, participant_rewards = Map.empty,
     participant_warm_keys = [], participant_hardware_nodes = [],
     epoch_total_rewards = Map.empty\<rparr>"

text \<open>\<open>INSERT OR REPLACE\<close> of one row: a row with the same primary key goes, the new one is added.\<close>

definition upsert_stats :: "int \<Rightarrow> int \<Rightarrow> stats_dict \<Rightarrow> stats_row list \<Rightarrow> stats_row list" where
  "upsert_stats e h st rows =
    filter (\<lambda>r. \<not> (sr_epoch_id r = e \<and> sr_height r = h
                  \<and> sr_participant_index r = p_index (sd_participant st))) rows
    @ [\<lparr>sr_epoch_id = e, sr_height = h,
        sr_participant_index = p_index (sd_participant st), sr_stats = st\<rparr>]"

definition save_stats_batch :: "CacheDB \<Rightarrow> int \<Rightarrow> int \<Rightarrow> stats_dict list \<Rightarrow> CacheDB" where
  "save_stats_batch db e h participants_stats =
    db\<lparr>inference_stats := fold (upsert_stats e h) participants_stats (inference_stats db)\<rparr>"

text \<open>
  \<open>get_stats\<close>: the rows of the epoch, at the given height when there is one; \<open>None\<close>
  when there is no row. The query has no \<open>ORDER BY\<close>. SQLite answers it through the
  index \<open>idx_epoch_height\<close> on \<open>(epoch_id, height)\<close>, which yields the rows by height
  and, at one height, in the order of their insertion; the model does the same.
\<close>

definition get_stats :: "CacheDB \<Rightarrow> int \<Rightarrow> int option \<Rightarrow> stats_row list option" where
  "get_stats db e h_opt =
    (let rows = filter (\<lambda>r. sr_epoch_id r = e
                   \<and> (case h_opt of None \<Rightarrow> True | Some h \<Rightarrow> sr_height r = h))
                 (inference_stats db)
     in if rows = [] then None else Some (sort_key sr_height rows))"

definition mark_epoch_finished :: "CacheDB \<Rightarrow> int \<Rightarrow> int \<Rightarrow> CacheDB" where
  "mark_epoch_finished db e finish_height =
    db\<lparr>epoch_status := (epoch_status db)(e \<mapsto> (True, finish_height))\<rparr>"

definition is_epoch_finished :: "CacheDB \<Rightarrow> int \<Rightarrow> bool" where
  "is_epoch_finished db e =
    (case epoch_status db e of None \<Rightarrow> False | Some (is_finished, _) \<Rightarrow> is_finished)"

definition save_reward_batch :: "CacheDB \<Rightarrow> reward list \<Rightarrow> CacheDB" where
  "save_reward_batch db rewards =
    db\<lparr>participant_rewards :=
         fold (\<lambda>r m. m((reward_epoch_id r, reward_participant_id r)
                        \<mapsto> (reward_rewarded_coins r, reward_claimed r)))
              rewards (participant_rewards db)\<rparr>"

text \<open>
  \<open>save_warm_keys_batch\<close>: the rows of the participant in the epoch are deleted and the
  new ones inserted with a plain \<open>INSERT\<close>, in one transaction; two keys with the same
  grantee violate the primary key, and then nothing is committed. With an empty list the
  rows are deleted and nothing is inserted.
\<close>

definition save_warm_keys_batch ::
  "CacheDB \<Rightarrow> int \<Rightarrow> string \<Rightarrow> warm_key list \<Rightarrow> error + CacheDB" where
  "save_warm_keys_batch db e pid warm_keys =
    (if distinct (map grantee_address warm_keys) then
       Inr (db\<lparr>participant_warm_keys :=
              filter (\<lambda>r. \<not> (wk_epoch_id r = e \<and> wk_participant_id r = pid))
                     (participant_warm_keys db)
              @ map (\<lambda>k. \<lparr>wk_epoch_id = e, wk_participant_id = pid, wk_key = k\<rparr>) warm_keys\<rparr>)
     else Inl IntegrityError)"

text \<open>
  \<open>get_warm_keys\<close>: \<open>None\<close> when the query returns no row, else the rows by
  \<open>granted_at\<close>, latest first; rows of equal \<open>granted_at\<close> stay in the order of their
  insertion, as SQLite's sorter leaves them.
\<close>

definition get_warm_keys :: "CacheDB \<Rightarrow> int \<Rightarrow> string \<Rightarrow> warm_key list option" where
  "get_warm_keys db e pid =
    (let rows = filter (\<lambda>r. wk_epoch_id r = e \<and> wk_participant_id r = pid)
                  (participant_warm_keys db)
     in if rows = [] then None
        else Some (rev (sort_key granted_at (rev (map wk_key rows)))))"

definition or_empty :: "string option \<Rightarrow> string" where
  "or_empty v = (case v of None \<Rightarrow> [] | Some s \<Rightarrow> s)"

definition save_hardware_nodes_batch ::
  "CacheDB \<Rightarrow> int \<Rightarrow> string \<Rightarrow> hardware_node list \<Rightarrow> error + CacheDB" where
  "save_hardware_nodes_batch db e pid hardware_nodes =
    (if distinct (map (\<lambda>n. or_empty (hw_local_id n)) hardware_nodes) then
       Inr (db\<lparr>participant_hardware_nodes :=
              filter (\<lambda>r. \<not> (hr_epoch_id r = e \<and> hr_participant_id r = pid))
                     (participant_hardware_nodes db)
              @ map (\<lambda>n. \<lparr>hr_epoch_id = e, hr_participant_id = pid,
                          hr_node = n\<lparr>hw_local_id := Some (or_empty (hw_local_id n)),
                                      hw_status := Some (or_empty (hw_status n)),
                                      hw_host := Some (or_empty (hw_host n)),
                                      hw_port := Some (or_empty (hw_port n))\<rparr>\<rparr>)
                    hardware_nodes\<rparr>)
     else Inl IntegrityError)"

definition get_hardware_nodes :: "CacheDB \<Rightarrow> int \<Rightarrow> string \<Rightarrow> hardware_node list option" where
  "get_hardware_nodes db e pid =
    (let rows = filter (\<lambda>r. hr_epoch_id r = e \<and> hr_participant_id r = pid)
                  (participant_hardware_nodes db)
     in if rows = [] then None
        else Some (sort_key (\<lambda>n. or_empty (hw_local_id n)) (map hr_node rows)))"

definition save_epoch_total_rewards :: "CacheDB \<Rightarrow> int \<Rightarrow> int \<Rightarrow> CacheDB" where
  "save_epoch_total_rewards db e total_rewards_gnk =
    db\<lparr>epoch_total_rewards := (epoch_total_rewards db)(e \<mapsto> total_rewards_gnk)\<rparr>"

definition get_epoch_total_rewards :: "CacheDB \<Rightarrow> int \<Rightarrow> int option" where
  "get_epoch_total_rewards db e = epoch_total_rewards db e"

definition delete_epoch_total_rewards :: "CacheDB \<Rightarrow> int \<Rightarrow> CacheDB" where
  "delete_epoch_total_rewards db e =
    db\<lparr>epoch_total_rewards := (epoch_total_rewards db)(e := None)\<rparr>"

section \<open>The inference service\<close>

text \<open>
  The state of \<open>InferenceService\<close>: the store, the three attributes that cache the
  current epoch, and the coroutines handed to \<open>asyncio.create_task\<close>, in the order of
  their creation. Such a task is not awaited by the call that creates it: the event loop
  runs it while that call, or a later one, is suspended at an \<open>await\<close>. The functions
  below record the task and do not run it, so the state they return is what the
  statements of the call itself have written; what the recorded tasks write comes on top
  of it, at a moment that the call does not fix.
\<close>

datatype task =
    CalculateAndCacheTotalRewards int
  | EnsureParticipantCaches int

record InferenceService =
  cache_db :: CacheDB
  current_epoch_id :: "int option"
  current_epoch_data :: "InferenceResponse option"
  last_fetch_time :: "real option"
  created_tasks :: "task list"

definition create_task :: "task \<Rightarrow> InferenceService \<Rightarrow> InferenceService" where
  "create_task t s = s\<lparr>created_tasks := created_tasks s @ [t]\<rparr>"

text \<open>\<open>_extract_ml_nodes_map\<close>: a node counts when its id is truthy and its weight is not \<open>None\<close>.\<close>

definition extract_ml_nodes_map :: "ml_node_json list list \<Rightarrow> (string \<rightharpoonup> int)" where
  "extract_ml_nodes_map ml_nodes_data =
    fold (\<lambda>wrapper result.
            fold (\<lambda>node res.
                    case node_id node of
                      None \<Rightarrow> res
                    | Some nid \<Rightarrow>
                        if nid = [] then res
                        else (case node_poc_weight node of
                                None \<Rightarrow> res
                              | Some poc_weight \<Rightarrow> res(nid \<mapsto> poc_weight)))
                 wrapper result)
         ml_nodes_data Map.empty"

text \<open>
  \<open>merge_jail_and_health_data\<close> assigns the jail, profile and health fields of each
  participant in place, reads and fills the tables \<open>jail_status\<close> and \<open>node_health\<close>,
  catches every exception and returns the list it was given. None of those fields and
  tables is part of this model, so what remains of it is the list unchanged.
\<close>

definition merge_jail_and_health_data :: "ParticipantStats list \<Rightarrow> ParticipantStats list" where
  "merge_jail_and_health_data participants = participants"

text \<open>
  The join of the all-participants answer with the epoch group, written twice in the
  source (in \<open>get_current_epoch_stats\<close> and in \<open>get_historical_epoch_stats\<close>). The
  dictionary \<open>epoch_participant_data\<close> keeps the last epoch participant of an index.
  A participant whose \<open>ParticipantStats\<close> cannot be built is skipped.
\<close>

definition participant_entry ::
  "epoch_group \<Rightarrow> participant_json \<Rightarrow> (ParticipantStats \<times> stats_dict) option" where
  "participant_entry epoch_data p =
    (let d = find (\<lambda>q. ep_index q = p_index p) (rev (eg_participants epoch_data));
         w = (case d of None \<Rightarrow> 0
              | Some q \<Rightarrow> (case ep_weight q of None \<Rightarrow> 0 | Some x \<Rightarrow> x));
         ms = (case d of None \<Rightarrow> []
               | Some q \<Rightarrow> (case ep_models q of None \<Rightarrow> [] | Some x \<Rightarrow> x));
         vk = (case d of None \<Rightarrow> None | Some q \<Rightarrow> ep_validator_key q);
         sg = (case d of None \<Rightarrow> None | Some q \<Rightarrow> ep_seed_signature q);
         mm = (case d of None \<Rightarrow> Map.empty | Some q \<Rightarrow> extract_ml_nodes_map (ep_ml_nodes q))
     in case p_address p of
          None \<Rightarrow> None
        | Some a \<Rightarrow>
            (case p_current_epoch_stats p of
               None \<Rightarrow> None
             | Some ces \<Rightarrow>
                 Some (\<lparr>index = p_index p, address = a, weight = w, validator_key = vk,
                        inference_url = p_inference_url p, status = p_status p,
                        models = ms, current_epoch_stats = ces\<rparr>,
                       \<lparr>sd_participant = p, sd_weight = w, sd_models = ms,
                        sd_validator_key = vk, sd_seed_signature = sg,
                        sd_ml_nodes_map = mm\<rparr>)))"

definition build_participants ::
  "epoch_group \<Rightarrow> participant_json list \<Rightarrow> ParticipantStats list \<times> stats_dict list" where
  "build_participants epoch_data participants_list =
    (let active_participants =
           filter (\<lambda>p. p_index p \<in> set (map ep_index (eg_participants epoch_data)))
                  participants_list;
         entries = List.map_filter (participant_entry epoch_data) active_participants
     in (map fst entries, map snd entries))"

text \<open>\<open>ParticipantStats(**stats_copy)\<close> on a cached row; a row that does not parse is skipped.\<close>

definition parse_cached :: "stats_row \<Rightarrow> ParticipantStats option" where
  "parse_cached r =
    (let st = sr_stats r; p = sd_participant st
     in case p_address p of
          None \<Rightarrow> None
        | Some a \<Rightarrow>
            (case p_current_epoch_stats p of
               None \<Rightarrow> None
             | Some ces \<Rightarrow>
                 Some \<lparr>index = p_index p, address = a, weight = sd_weight st,
                       validator_key = sd_validator_key st,
                       inference_url = p_inference_url p, status = p_status p,
                       models = sd_models st, current_epoch_stats = ces\<rparr>))"

subsection \<open>Total rewards of an epoch\<close>

text \<open>
  The loop of \<open>_calculate_and_cache_total_rewards\<close> over the epoch's participants. A
  participant whose summary cannot be fetched, or whose \<open>rewarded_coins\<close> is not an
  integer, is skipped by the inner \<open>except\<close>.
\<close>

record rewards_pass =
  total_ugnk :: int
  fetched_count :: nat
  rewards_batch :: "reward list"
  participants_with_rewards :: nat

definition coins_of :: "perf_summary \<Rightarrow> string" where
  "coins_of perf = (case perf_rewarded_coins perf of None \<Rightarrow> ''0'' | Some s \<Rightarrow> s)"

fun rewards_loop ::
  "client \<Rightarrow> int \<Rightarrow> epoch_participant list \<Rightarrow> rewards_pass \<Rightarrow> rewards_pass" where
  "rewards_loop c e [] acc = acc"
| "rewards_loop c e (participant # rest) acc =
    (case get_epoch_performance_summary c e (ep_index participant) of
       Inl _ \<Rightarrow> rewards_loop c e rest acc
     | Inr perf \<Rightarrow>
        (case py_int (coins_of perf) of
           Inl _ \<Rightarrow> rewards_loop c e rest acc
         | Inr rewarded_amount \<Rightarrow>
             rewards_loop c e rest
               \<lparr>total_ugnk = total_ugnk acc + rewarded_amount,
                fetched_count = fetched_count acc + 1,
                rewards_batch = rewards_batch acc @
                  [\<lparr>reward_epoch_id = e, reward_participant_id = ep_index participant,
                    reward_rewarded_coins = coins_of perf,
                    reward_claimed = (perf_claimed perf = Some True)\<rparr>],
                participants_with_rewards =
                  (if 0 < rewarded_amount then participants_with_rewards acc + 1
                   else participants_with_rewards acc)\<rparr>))"

definition rewards_start :: rewards_pass where
  "rewards_start =
    \<lparr>total_ugnk = 0, fetched_count = 0, rewards_batch = [], participants_with_rewards = 0\<rparr>"

text \<open>
  \<open>_calculate_and_cache_total_rewards\<close>. Nothing is raised: the outer \<open>except\<close> logs a
  failed epoch fetch. A total that does not fit SQLite's 64-bit integer makes the last
  save raise, after the rewards batch was committed.
\<close>

definition calculate_and_cache_total_rewards :: "client \<Rightarrow> int \<Rightarrow> CacheDB \<Rightarrow> CacheDB" where
  "calculate_and_cache_total_rewards c e db =
    (case get_epoch_participants c e of
       Inl _ \<Rightarrow> db
     | Inr epoch_data \<Rightarrow>
        let acc = rewards_loop c e (eg_participants epoch_data) rewards_start
        in if total_ugnk acc = 0 \<and> 0 < fetched_count acc then db
           else
             let db1 = (if rewards_batch acc \<noteq> [] then save_reward_batch db (rewards_batch acc)
                        else db);
                 total_gnk = total_ugnk acc div 1000000000
             in if - (2 ^ 63) \<le> total_gnk \<and> total_gnk < 2 ^ 63
                then save_epoch_total_rewards db1 e total_gnk
                else db1)"

subsection \<open>Historical and current epoch\<close>

text \<open>
  \<open>get_historical_epoch_stats\<close>. Every exception leaves the function; the state it
  returns next to an error is the state at the raise.
\<close>

definition get_historical_epoch_stats ::
  "client \<Rightarrow> int \<Rightarrow> int option \<Rightarrow> bool \<Rightarrow> InferenceService
     \<Rightarrow> (error + InferenceResponse) \<times> InferenceService" where
  "get_historical_epoch_stats c e height_opt calculate_rewards_sync s =
    (let is_finished = is_epoch_finished (cache_db s) e
     in case get_canonical_height c e height_opt of
          Inl err \<Rightarrow> (Inl err, s)
        | Inr target_height \<Rightarrow>
           (case get_stats (cache_db s) e (Some target_height) of
              Some cached_stats \<Rightarrow>
                (case get_epoch_participants c e of
                   Inl err \<Rightarrow> (Inl err, s)
                 | Inr epoch_data \<Rightarrow>
                    let participants_stats =
                          merge_jail_and_health_data (List.map_filter parse_cached cached_stats);
                        total_rewards_gnk = get_epoch_total_rewards (cache_db s) e;
                        response = (\<lambda>total.
                          \<lparr>resp_epoch_id = e, resp_height = target_height,
                           resp_participants = participants_stats, resp_is_current = False,
                           resp_total_assigned_rewards_gnk = total\<rparr>)
                    in if total_rewards_gnk = None \<or> total_rewards_gnk = Some 0 then
                         let db1 = (if total_rewards_gnk = Some 0
                                    then delete_epoch_total_rewards (cache_db s) e
                                    else cache_db s)
                         in if calculate_rewards_sync then
                              let db2 = calculate_and_cache_total_rewards c e db1
                              in (Inr (response (get_epoch_total_rewards db2 e)),
                                  create_task (EnsureParticipantCaches e) (s\<lparr>cache_db := db2\<rparr>))
                            else
                              (Inr (response total_rewards_gnk),
                               create_task (EnsureParticipantCaches e)
                                 (create_task (CalculateAndCacheTotalRewards e)
                                    (s\<lparr>cache_db := db1\<rparr>)))
                       else
                         (Inr (response total_rewards_gnk),
                          create_task (EnsureParticipantCaches e) s))
            | None \<Rightarrow>
                (case get_all_participants c target_height of
                   Inl err \<Rightarrow> (Inl err, s)
                 | Inr participants_list \<Rightarrow>
                    (case get_epoch_participants c e of
                       Inl err \<Rightarrow> (Inl err, s)
                     | Inr epoch_data \<Rightarrow>
                        let built = build_participants epoch_data participants_list;
                            db1 = save_stats_batch (cache_db s) e target_height (snd built);
                            db2 = (if height_opt = None \<and> \<not> is_finished
                                   then mark_epoch_finished db1 e target_height else db1);
                            participants_stats = merge_jail_and_health_data (fst built);
                            total_rewards_gnk = get_epoch_total_rewards db2 e;
                            s1 = (if total_rewards_gnk = None
                                  then create_task (CalculateAndCacheTotalRewards e)
                                         (s\<lparr>cache_db := db2\<rparr>)
                                  else s\<lparr>cache_db := db2\<rparr>)
                        in (Inr \<lparr>resp_epoch_id = e, resp_height = target_height,
                                 resp_participants = participants_stats,
                                 resp_is_current = False,
                                 resp_total_assigned_rewards_gnk = total_rewards_gnk\<rparr>,
                            create_task (EnsureParticipantCaches e) s1)))))"

text \<open>
  \<open>_mark_epoch_finished_if_needed\<close>: on a transition to a later epoch whose predecessor
  is not marked finished, the historical fetch of the old epoch runs with
  \<open>calculate_rewards_sync=True\<close>; its result is dropped and its exception only logged.
\<close>

definition mark_epoch_finished_if_needed ::
  "client \<Rightarrow> int \<Rightarrow> int \<Rightarrow> InferenceService \<Rightarrow> InferenceService" where
  "mark_epoch_finished_if_needed c fresh_epoch_id current_height s =
    (case current_epoch_id s of
       None \<Rightarrow> s
     | Some old_epoch_id \<Rightarrow>
        if old_epoch_id < fresh_epoch_id then
          if \<not> is_epoch_finished (cache_db s) old_epoch_id
          then snd (get_historical_epoch_stats c old_epoch_id None True s)
          else s
        else s)"

text \<open>
  The \<open>try\<close> block of \<open>get_current_epoch_stats\<close>: the fresh fetch. \<open>now\<close> is the
  reading of \<open>time.time()\<close> taken at the start of the call.
\<close>

definition fetch_current_epoch_stats ::
  "client \<Rightarrow> real \<Rightarrow> InferenceService \<Rightarrow> (error + InferenceResponse) \<times> InferenceService" where
  "fetch_current_epoch_stats c now s =
    (case get_latest_height c of
       Inl err \<Rightarrow> (Inl err, s)
     | Inr current_height \<Rightarrow>
        (case get_current_epoch_participants c of
           Inl err \<Rightarrow> (Inl err, s)
         | Inr epoch_data \<Rightarrow>
            let e = epoch_group_id epoch_data;
                s1 = mark_epoch_finished_if_needed c e current_height s
            in case get_all_participants c current_height of
                 Inl err \<Rightarrow> (Inl err, s1)
               | Inr participants_list \<Rightarrow>
                  let built = build_participants epoch_data participants_list;
                      participants_stats = merge_jail_and_health_data (fst built);
                      response = \<lparr>resp_epoch_id = e, resp_height = current_height,
                                  resp_participants = participants_stats,
                                  resp_is_current = True,
                                  resp_total_assigned_rewards_gnk = None\<rparr>;
                      db1 = save_stats_batch (cache_db s1) e current_height (snd built)
                  in (Inr response,
                      create_task (EnsureParticipantCaches e)
                        (s1\<lparr>cache_db := db1, current_epoch_id := Some e,
                            current_epoch_data := Some response,
                            last_fetch_time := Some now\<rparr>))))"

text \<open>
  Whether the call is answered from memory: no reload, a cached response, and a truthy
  cache age below 300 seconds.
\<close>

definition served_from_memory :: "real \<Rightarrow> bool \<Rightarrow> InferenceService \<Rightarrow> bool" where
  "served_from_memory now reload s =
    (let cache_age = (case last_fetch_time s of
                        None \<Rightarrow> None
                      | Some t \<Rightarrow> if t \<noteq> 0 then Some (now - t) else None)
     in \<not> reload \<and> current_epoch_data s \<noteq> None
        \<and> (case cache_age of None \<Rightarrow> False | Some age \<Rightarrow> age \<noteq> 0 \<and> age < 300))"

definition get_current_epoch_stats ::
  "client \<Rightarrow> real \<Rightarrow> bool \<Rightarrow> InferenceService
     \<Rightarrow> (error + InferenceResponse) \<times> InferenceService" where
  "get_current_epoch_stats c now reload s =
    (case (if served_from_memory now reload s then current_epoch_data s else None) of
       Some cached \<Rightarrow> (Inr cached, s)
     | None \<Rightarrow>
        (case fetch_current_epoch_stats c now s of
           (Inr response, s1) \<Rightarrow> (Inr response, s1)
         | (Inl err, s1) \<Rightarrow>
             (case current_epoch_data s1 of
                Some cached \<Rightarrow> (Inr cached, s1)
              | None \<Rightarrow> (Inl err, s1))))"

subsection \<open>Warm keys and ML nodes of the participant details\<close>

text \<open>
  The warm-keys step of \<open>get_participant_details\<close>: the cached rows when the store has
  any, else an inline fetch of the authz grants, saved only when the fetched list is not
  empty. The result is the list, whether \<open>get_authz_grants\<close> was called, and the store.
\<close>

definition details_warm_keys ::
  "client \<Rightarrow> int \<Rightarrow> string \<Rightarrow> CacheDB \<Rightarrow> warm_key list \<times> bool \<times> CacheDB" where
  "details_warm_keys c e participant_id db =
    (case get_warm_keys db e participant_id of
       Some warm_keys_data \<Rightarrow> (warm_keys_data, False, db)
     | None \<Rightarrow>
        (case get_authz_grants c participant_id of
           Inl _ \<Rightarrow> ([], True, db)
         | Inr warm_keys_raw \<Rightarrow>
             if warm_keys_raw \<noteq> [] then
               (case save_warm_keys_batch db e participant_id warm_keys_raw of
                  Inl _ \<Rightarrow> ([], True, db)
                | Inr db1 \<Rightarrow> (warm_keys_raw, True, db1))
             else ([], True, db)))"

text \<open>\<open>MLNodeInfo\<close> of \<open>models.py\<close>.\<close>

record MLNodeInfo =
  ml_local_id :: string
  ml_status :: string
  ml_models :: "string list"
  ml_hardware :: "(string \<times> int) list"
  ml_host :: string
  ml_port :: string
  ml_poc_weight :: "int option"

text \<open>Python's \<open>a or b\<close> on optional integers: \<open>a\<close> when it is truthy, else \<open>b\<close>.\<close>

definition py_or :: "int option \<Rightarrow> int option \<Rightarrow> int option" where
  "py_or a b = (case a of None \<Rightarrow> b | Some v \<Rightarrow> if v \<noteq> 0 then Some v else b)"

text \<open>
  The ML-nodes map that \<open>get_participant_details\<close> reads: \<open>_ml_nodes_map\<close> of the first
  cached stats row of the participant, the empty dictionary when there is none.
\<close>

definition details_ml_nodes_map ::
  "CacheDB \<Rightarrow> int \<Rightarrow> int option \<Rightarrow> string \<Rightarrow> (string \<rightharpoonup> int)" where
  "details_ml_nodes_map db e height_opt participant_id =
    (case get_stats db e height_opt of
       None \<Rightarrow> Map.empty
     | Some cached_stats \<Rightarrow>
        (case find (\<lambda>r. p_index (sd_participant (sr_stats r)) = participant_id) cached_stats of
           None \<Rightarrow> Map.empty
         | Some r \<Rightarrow> sd_ml_nodes_map (sr_stats r)))"

definition ml_node_info :: "(string \<rightharpoonup> int) \<Rightarrow> hardware_node \<Rightarrow> MLNodeInfo" where
  "ml_node_info ml_nodes_map node =
    (let lid = or_empty (hw_local_id node);
         poc_weight = py_or (ml_nodes_map lid) (hw_poc_weight node)
     in \<lparr>ml_local_id = lid, ml_status = or_empty (hw_status node),
         ml_models = hw_models node, ml_hardware = hw_hardware node,
         ml_host = or_empty (hw_host node), ml_port = or_empty (hw_port node),
         ml_poc_weight = poc_weight\<rparr>)"

text \<open>
  The hardware step of \<open>get_participant_details\<close>: cached rows or an inline fetch, as
  for the warm keys, then one \<open>MLNodeInfo\<close> per node.
\<close>

definition details_ml_nodes ::
  "client \<Rightarrow> int \<Rightarrow> int option \<Rightarrow> string \<Rightarrow> CacheDB \<Rightarrow> MLNodeInfo list \<times> CacheDB" where
  "details_ml_nodes c e height_opt participant_id db =
    (let fetched =
           (case get_hardware_nodes db e participant_id of
              Some hardware_nodes_data \<Rightarrow> (hardware_nodes_data, db)
            | None \<Rightarrow>
               (case client_get_hardware_nodes c participant_id of
                  Inl _ \<Rightarrow> ([], db)
                | Inr hardware_nodes_raw \<Rightarrow>
                    if hardware_nodes_raw \<noteq> [] then
                      (case save_hardware_nodes_batch db e participant_id hardware_nodes_raw of
                         Inl _ \<Rightarrow> ([], db)
                       | Inr db1 \<Rightarrow> (hardware_nodes_raw, db1))
                    else ([], db)));
         ml_nodes_map = details_ml_nodes_map (snd fetched) e height_opt participant_id
     in (map (ml_node_info ml_nodes_map) (fst fetched), snd fetched))"

section \<open>Notions of the specification\<close>

text \<open>
  The amount that one participant contributes to the total of an epoch: the integer in
  \<open>rewarded_coins\<close> of the performance summary, when the summary can be fetched and
  the field is an integer.
\<close>

definition summary_amount :: "client \<Rightarrow> int \<Rightarrow> epoch_participant \<Rightarrow> int option" where
  "summary_amount c e p =
    (case get_epoch_performance_summary c e (ep_index p) of
       Inl _ \<Rightarrow> None
     | Inr perf \<Rightarrow> (case py_int (coins_of perf) of Inl _ \<Rightarrow> None | Inr n \<Rightarrow> Some n))"


text \<open>
  The words of the specification on rates. \<open>float_of x r\<close>: the float \<open>r\<close> stands for
  the real number \<open>x\<close>, that is, it is as near to \<open>x\<close> as a float of 53 significant
  bits is (half a unit of the last place; \<open>2\<^sup>-\<^sup>1\<^sup>0\<^sup>7\<^sup>5\<close> for the smallest numbers).
  \<open>decimal_of n x k\<close>: the decimal \<open>k / 10\<^sup>n\<close> is \<open>x\<close> rounded to \<open>n\<close> decimals.
\<close>

definition float_of :: "real \<Rightarrow> real \<Rightarrow> bool" where
  "float_of x r \<longleftrightarrow> \<bar>r - x\<bar> \<le> \<bar>x\<bar> / 2 ^ 53 + 1 / 2 ^ 1075"

definition decimal_of :: "nat \<Rightarrow> real \<Rightarrow> int \<Rightarrow> bool" where
  "decimal_of n x k \<longleftrightarrow> \<bar>x * 10 ^ n - of_int k\<bar> \<le> 1 / 2"

section \<open>Example inputs\<close>

text \<open>Upstream objects with the fields that matter filled in.\<close>

definition stats_of :: "string \<Rightarrow> string \<Rightarrow> string \<Rightarrow> CurrentEpochStats" where
  "stats_of inferences missed invalidated =
    \<lparr>inference_count = inferences, missed_requests = missed, earned_coins = ''0'',
     rewarded_coins = ''0'', burned_coins = ''0'', validated_inferences = ''0'',
     invalidated_inferences = invalidated\<rparr>"

definition upstream_participant :: "string \<Rightarrow> string \<Rightarrow> string \<Rightarrow> participant_json" where
  "upstream_participant i inferences missed =
    \<lparr>p_index = i, p_address = Some i, p_inference_url = None, p_status = None,
     p_current_epoch_stats = Some (stats_of inferences missed ''0'')\<rparr>"

definition active_participant :: "string \<Rightarrow> int \<Rightarrow> (string \<times> int) list \<Rightarrow> epoch_participant" where
  "active_participant i w nodes =
    \<lparr>ep_index = i, ep_weight = Some w, ep_models = None, ep_validator_key = None,
     ep_seed_signature = None,
     ep_ml_nodes = [map (\<lambda>(n, pw). \<lparr>node_id = Some n, node_poc_weight = Some pw\<rparr>) nodes]\<rparr>"

definition stats_participant :: "string \<Rightarrow> string \<Rightarrow> string \<Rightarrow> ParticipantStats" where
  "stats_participant inferences missed invalidated =
    \<lparr>index = ''P'', address = ''P'', weight = 1, validator_key = None, inference_url = None,
     status = None, models = [],
     current_epoch_stats = stats_of inferences missed invalidated\<rparr>"

text \<open>A count of 309 digits, \<open>2 \<times> 10\<^sup>3\<^sup>0\<^sup>8\<close>: more than the largest float.\<close>

definition huge_count :: string where
  "huge_count = ''200000000000000000000000000000000000000000000000000000000000000000000000000000000000000000000000000000000000000000000000000000000000000000000000000000000000000000000000000000000000000000000000000000000000000000000000000000000000000000000000000000000000000000000000000000000000000000000000000000000000000000000''"

definition cold :: InferenceService where
  "cold = \<lparr>cache_db = empty_db, current_epoch_id = None, current_epoch_data = None,
           last_fetch_time = None, created_tasks = []\<rparr>"

text \<open>An upstream of which every call fails.\<close>

definition down :: client where
  "down =
    \<lparr>get_latest_epoch = Inl UpstreamUnavailable,
     get_latest_height = Inl UpstreamUnavailable,
     get_current_epoch_participants = Inl UpstreamUnavailable,
     get_epoch_participants = (\<lambda>_. Inl UpstreamUnavailable),
     get_all_participants = (\<lambda>_. Inl UpstreamUnavailable),
     get_epoch_performance_summary = (\<lambda>_ _. Inl UpstreamUnavailable),
     get_authz_grants = (\<lambda>_. Inl UpstreamUnavailable),
     client_get_hardware_nodes = (\<lambda>_. Inl UpstreamUnavailable)\<rparr>"

text \<open>
  Scenario A: the current epoch \<open>e\<close> at height \<open>h\<close> with the participants P1 and P2 of
  weight 100 and 200, inference counts 10 and 5, missed requests 0 and 5.
\<close>

definition scenario_a :: "int \<Rightarrow> int \<Rightarrow> client" where
  "scenario_a e h =
    down\<lparr>get_latest_epoch := Inr \<lparr>latest_epoch_index = e, next_poc_start = h + 1000\<rparr>,
         get_latest_height := Inr h,
         get_current_epoch_participants :=
           Inr \<lparr>epoch_group_id = e, effective_block_height = h - 100,
                eg_participants = [active_participant ''P1'' 100 [], active_participant ''P2'' 200 []]\<rparr>,
         get_all_participants :=
           (\<lambda>_. Inr [upstream_participant ''P1'' ''10'' ''0'',
                      upstream_participant ''P2'' ''5'' ''5''])\<rparr>"

text \<open>Scenario A with the answer to the all-participants query given.\<close>

definition scenario_a_listing :: "int \<Rightarrow> int \<Rightarrow> participant_json list \<Rightarrow> client" where
  "scenario_a_listing e h participants_list =
    (scenario_a e h)\<lparr>get_all_participants := (\<lambda>_. Inr participants_list)\<rparr>"

text \<open>
  Scenario D: epoch 41 (from block 10000, participant P1) has ended and epoch 42 (from
  block 10100) is current at height 10200. The summary of P1 for epoch 41 carries the
  given \<open>rewarded_coins\<close>; the summaries of other participants cannot be fetched.
\<close>

definition scenario_d :: "string \<Rightarrow> client" where
  "scenario_d coins =
    down\<lparr>get_latest_epoch := Inr \<lparr>latest_epoch_index = 42, next_poc_start = 10200\<rparr>,
         get_latest_height := Inr 10200,
         get_current_epoch_participants :=
           Inr \<lparr>epoch_group_id = 42, effective_block_height = 10100,
                eg_participants = [active_participant ''P1'' 100 []]\<rparr>,
         get_epoch_participants :=
           (\<lambda>i. if i = 41 then
                   Inr \<lparr>epoch_group_id = 41, effective_block_height = 10000,
                        eg_participants = [active_participant ''P1'' 100 [], active_participant ''P2'' 200 []]\<rparr>
                 else if i = 42 then
                   Inr \<lparr>epoch_group_id = 42, effective_block_height = 10100,
                        eg_participants = [active_participant ''P1'' 100 []]\<rparr>
                 else Inl UpstreamUnavailable),
         get_all_participants := (\<lambda>_. Inr [upstream_participant ''P1'' ''10'' ''0'']),
         get_epoch_performance_summary :=
           (\<lambda>i p. if i = 41 \<and> p = ''P1''
                   then Inr \<lparr>perf_rewarded_coins = Some coins, perf_claimed = Some False\<rparr>
                   else Inl UpstreamUnavailable)\<rparr>"

text \<open>
  The service while epoch 41 is current: \<open>during_41 hs\<close> has fetched the current epoch
  at each of the heights \<open>hs\<close> (a list that is not empty), so that the store holds the
  stats of P1 at these heights.
\<close>

definition stats_p1 :: stats_dict where
  "stats_p1 =
    \<lparr>sd_participant = upstream_participant ''P1'' ''10'' ''0'', sd_weight = 100,
     sd_models = [], sd_validator_key = None, sd_seed_signature = None,
     sd_ml_nodes_map = [''node1'' \<mapsto> 0]\<rparr>"

definition during_41 :: "int list \<Rightarrow> InferenceService" where
  "during_41 hs =
    \<lparr>cache_db = fold (\<lambda>h db. save_stats_batch db 41 h [stats_p1]) hs empty_db,
     current_epoch_id = Some 41,
     current_epoch_data =
       Some \<lparr>resp_epoch_id = 41, resp_height = last hs,
             resp_participants =
               [\<lparr>index = ''P1'', address = ''P1'', weight = 100, validator_key = None,
                 inference_url = None, status = None, models = [],
                 current_epoch_stats = stats_of ''10'' ''0'' ''0''\<rparr>],
             resp_is_current = True, resp_total_assigned_rewards_gnk = None\<rparr>,
     last_fetch_time = Some 1000, created_tasks = []\<rparr>"

text \<open>A registry node \<open>node1\<close> with the given weight, for participant P1.\<close>

definition registry :: "int option \<Rightarrow> client" where
  "registry pw =
    down\<lparr>get_authz_grants := (\<lambda>_. Inr []),
         client_get_hardware_nodes :=
           (\<lambda>_. Inr [\<lparr>hw_local_id = Some ''node1'', hw_status = Some ''INFERENCE'',
                       hw_models = [], hw_hardware = [], hw_host = Some ''h'',
                       hw_port = Some ''8080'', hw_poc_weight = pw\<rparr>])\<rparr>"

section \<open>Properties of the canonical height\<close>

text \<open>
  C1, as amended. For a historical epoch whose data upstream returns: with no requested
  height the result is the canonical height (next epoch's effective height minus 10, or
  \<open>next_poc_start - 10\<close> when the next epoch is not queryable), and a requested height
  that is at least the canonical height and not below the epoch's own effective height
  is clamped down to the canonical height.
\<close>

theorem canonical_height_historical:
  assumes "get_latest_epoch c = Inr latest"
    and "epoch_id < latest_epoch_index latest"
    and "get_epoch_participants c epoch_id = Inr epoch_data"
  shows "get_canonical_height c epoch_id None = Inr (canonical_height_of c latest epoch_id)
    \<and> (\<forall>h. canonical_height_of c latest epoch_id \<le> h \<and> effective_block_height epoch_data \<le> h
          \<longrightarrow> get_canonical_height c epoch_id (Some h)
              = Inr (canonical_height_of c latest epoch_id))"
  using assms
  by (simp add: get_canonical_height_def canonical_height_of_def Let_def split: sum.splits)

theorem canonical_height_historical_witness:
  "get_canonical_height (chain 43 20000 10500 [(42, 10000), (43, 10100)]) 42 None = Inr 10090
   \<and> get_canonical_height (chain 43 20000 10500 [(42, 10000), (43, 10100)]) 42 (Some 10095) = Inr 10090
   \<and> get_canonical_height (chain 43 10200 10150 [(42, 10000)]) 42 None = Inr 10190"
proof -
  let ?c = "chain 43 20000 10500 [(42, 10000), (43, 10100)]"
  let ?d = "chain 43 10200 10150 [(42, 10000)]"
  let ?l = "\<lparr>latest_epoch_index = 43, next_poc_start = 20000\<rparr>"
  let ?m = "\<lparr>latest_epoch_index = 43, next_poc_start = 10200\<rparr>"
  have c: "get_latest_epoch ?c = Inr ?l" "(42::int) < latest_epoch_index ?l"
    "get_epoch_participants ?c 42 = Inr (epoch_of 42 10000)"
    by (simp_all add: chain_def)
  have d: "get_latest_epoch ?d = Inr ?m" "(42::int) < latest_epoch_index ?m"
    "get_epoch_participants ?d 42 = Inr (epoch_of 42 10000)"
    by (simp_all add: chain_def)
  have vc: "canonical_height_of ?c ?l 42 = 10090"
    by (simp add: canonical_height_of_def chain_def epoch_of_def)
  have vd: "canonical_height_of ?d ?m 42 = 10190"
    by (simp add: canonical_height_of_def chain_def)
  have "get_canonical_height ?c 42 None = Inr 10090
      \<and> get_canonical_height ?c 42 (Some 10095) = Inr 10090"
    using canonical_height_historical [OF c] vc by (simp add: epoch_of_def)
  moreover have "get_canonical_height ?d 42 None = Inr 10190"
    using canonical_height_historical [OF d] vd by simp
  ultimately show ?thesis by simp
qed

text \<open>
  C1 as stated fails where the requested height is at least the canonical height but
  below the epoch's effective height: epoch 42 starts at 10000 and epoch 43 at 10005, so
  the canonical height is 9995, yet the request for height 9997 is refused.
\<close>

theorem canonical_height_clamp_counterexample:
  "get_latest_epoch (chain 43 20000 10500 [(42, 10000), (43, 10005)])
     = Inr \<lparr>latest_epoch_index = 43, next_poc_start = 20000\<rparr>
   \<and> (42::int) < 43
   \<and> canonical_height_of (chain 43 20000 10500 [(42, 10000), (43, 10005)])
        \<lparr>latest_epoch_index = 43, next_poc_start = 20000\<rparr> 42 = 9995
   \<and> (9995::int) \<le> 9997
   \<and> get_canonical_height (chain 43 20000 10500 [(42, 10000), (43, 10005)]) 42 (Some 9997)
        \<noteq> Inr 9995"
  by (simp add: get_canonical_height_def canonical_height_of_def chain_def epoch_of_def)

text \<open>
  C2. For a historical epoch whose data upstream returns, a requested height strictly
  below the epoch's effective block height fails with the invalid-height error; no height
  is returned.
\<close>

theorem canonical_height_too_early:
  assumes "get_latest_epoch c = Inr latest"
    and "epoch_id < latest_epoch_index latest"
    and "get_epoch_participants c epoch_id = Inr epoch_data"
    and "h < effective_block_height epoch_data"
  shows "get_canonical_height c epoch_id (Some h) = Inl InvalidHeight"
  using assms
  by (simp add: get_canonical_height_def Let_def split: sum.splits)

theorem canonical_height_too_early_witness:
  "get_canonical_height (chain 43 20000 10500 [(42, 10000), (43, 10100)]) 42 (Some 9000)
     = Inl InvalidHeight"
proof -
  let ?c = "chain 43 20000 10500 [(42, 10000), (43, 10100)]"
  let ?l = "\<lparr>latest_epoch_index = 43, next_poc_start = 20000\<rparr>"
  have "get_latest_epoch ?c = Inr ?l" "(42::int) < latest_epoch_index ?l"
    "get_epoch_participants ?c 42 = Inr (epoch_of 42 10000)"
    "(9000::int) < effective_block_height (epoch_of 42 10000)"
    by (simp_all add: chain_def epoch_of_def)
  from canonical_height_too_early [OF this] show ?thesis .
qed

section \<open>Rounding and rates\<close>

lemma pow2_powr: "pow2 k = 2 powr (of_int k)"
  by (simp add: pow2_def powr_real_of_int inverse_eq_divide)

lemma pow2_add: "pow2 (j + k) = pow2 j * pow2 k"
  by (simp add: pow2_powr powr_add)

lemma pow2_mono: "j \<le> k \<Longrightarrow> pow2 j \<le> pow2 k"
  by (simp add: pow2_powr)

lemma pow2_less_iff: "pow2 j < pow2 k \<longleftrightarrow> j < k"
  by (simp add: pow2_powr)

lemma pow2_nat: "pow2 (int n) = 2 ^ n"
  by (simp add: pow2_def)

lemma pow2_pos: "0 < pow2 k"
  by (simp add: pow2_def)

lemma bitlen_pos: "0 < n \<Longrightarrow> 0 < bitlen n"
  by (simp add: bitlen.simps [of n])

lemma bitlen_mono: "a \<le> b \<Longrightarrow> bitlen a \<le> bitlen b"
proof (induction a arbitrary: b rule: bitlen.induct)
  case (1 n)
  show ?case
  proof (cases "n = 0")
    case True
    then show ?thesis by (simp add: bitlen.simps)
  next
    case False
    with "1.prems" have b: "b \<noteq> 0" by simp
    have "n div 2 \<le> b div 2" using "1.prems" by (simp add: div_le_mono)
    from "1.IH" [OF False this] False b show ?thesis
      by (simp add: bitlen.simps [of n] bitlen.simps [of b])
  qed
qed

lemma bitlen_bounds: "0 < n \<Longrightarrow> 2 ^ (bitlen n - 1) \<le> n \<and> n < 2 ^ bitlen n"
proof (induction n rule: bitlen.induct)
  case (1 n)
  from "1.prems" have n0: "n \<noteq> 0" by simp
  have bl: "bitlen n = Suc (bitlen (n div 2))" using n0 by (simp add: bitlen.simps [of n])
  show ?case
  proof (cases "n div 2 = 0")
    case True
    with "1.prems" have "n = 1" by presburger
    then show ?thesis by (simp add: bitlen.simps)
  next
    case False
    then have pos: "0 < n div 2" by simp
    from "1.IH" [OF n0 pos]
    have lo: "2 ^ (bitlen (n div 2) - 1) \<le> n div 2" and hi: "n div 2 < 2 ^ bitlen (n div 2)"
      by simp_all
    obtain k where k: "bitlen (n div 2) = Suc k"
      using bitlen_pos [OF pos] by (cases "bitlen (n div 2)") simp_all
    have "2 * 2 ^ k \<le> 2 * (n div 2)" using lo k by simp
    also have "\<dots> \<le> n" by simp
    finally have a: "2 ^ (bitlen n - 1) \<le> n" using bl k by simp
    have "n div 2 + 1 \<le> 2 ^ bitlen (n div 2)" using hi by simp
    then have "2 * (n div 2) + 2 \<le> 2 * 2 ^ bitlen (n div 2)" by simp
    moreover have "n < 2 * (n div 2) + 2" by presburger
    ultimately have b: "n < 2 ^ bitlen n" using bl by simp
    from a b show ?thesis by simp
  qed
qed

lemma ilog2_lower:
  assumes "0 < a" "0 < b"
  shows "pow2 (ilog2 a b) * of_nat b \<le> of_nat a"
proof (cases "pow2 (int (bitlen a) - int (bitlen b)) * of_nat b \<le> of_nat a")
  case True
  then show ?thesis by (simp add: ilog2_def Let_def)
next
  case False
  then have l: "ilog2 a b = int (bitlen a) - int (bitlen b) - 1"
    by (simp add: ilog2_def Let_def)
  have pa: "0 < bitlen a" using assms(1) by (rule bitlen_pos)
  have "real b \<le> 2 ^ bitlen b"
    using bitlen_bounds [OF assms(2)] by (metis less_imp_le of_nat_le_iff of_nat_numeral of_nat_power)
  then have "pow2 (ilog2 a b) * real b \<le> pow2 (ilog2 a b) * 2 ^ bitlen b"
    using pow2_pos [of "ilog2 a b"] by simp
  also have "\<dots> = pow2 (ilog2 a b + int (bitlen b))"
    by (simp add: pow2_add pow2_nat)
  also have "ilog2 a b + int (bitlen b) = int (bitlen a - 1)" using l pa by simp
  also have "pow2 (int (bitlen a - 1)) = 2 ^ (bitlen a - 1)" by (rule pow2_nat)
  also have "\<dots> \<le> real a"
    using bitlen_bounds [OF assms(1)] by (metis of_nat_le_iff of_nat_numeral of_nat_power)
  finally show ?thesis .
qed

lemma ilog2_upper:
  assumes "0 < a" "0 < b"
  shows "of_nat a < pow2 (ilog2 a b + 1) * of_nat b"
proof (cases "pow2 (int (bitlen a) - int (bitlen b)) * of_nat b \<le> of_nat a")
  case False
  then show ?thesis by (simp add: ilog2_def Let_def)
next
  case True
  then have l: "ilog2 a b = int (bitlen a) - int (bitlen b)"
    by (simp add: ilog2_def Let_def)
  have pb: "0 < bitlen b" using assms(2) by (rule bitlen_pos)
  have "real a < 2 ^ bitlen a"
    using bitlen_bounds [OF assms(1)] by (metis of_nat_less_iff of_nat_numeral of_nat_power)
  also have "\<dots> = pow2 (int (bitlen a))" by (simp add: pow2_nat)
  also have "int (bitlen a) = (ilog2 a b + 1) + int (bitlen b - 1)" using l pb by simp
  also have "pow2 (ilog2 a b + 1 + int (bitlen b - 1)) = pow2 (ilog2 a b + 1) * 2 ^ (bitlen b - 1)"
    by (simp only: pow2_add pow2_nat)
  also have "\<dots> \<le> pow2 (ilog2 a b + 1) * real b"
  proof -
    have "(2::real) ^ (bitlen b - 1) \<le> real b"
      using bitlen_bounds [OF assms(2)] by (metis of_nat_le_iff of_nat_numeral of_nat_power)
    then show ?thesis using pow2_pos [of "ilog2 a b + 1"] by simp
  qed
  finally show ?thesis .
qed

lemma round_half_even_le: "x \<le> of_int n \<Longrightarrow> round_half_even x \<le> n"
proof -
  assume h: "x \<le> of_int n"
  have f: "\<lfloor>x\<rfloor> \<le> n" using h by (simp add: floor_le_iff) 
  show ?thesis
  proof (cases "x = of_int \<lfloor>x\<rfloor>")
    case True
    then have "x - of_int \<lfloor>x\<rfloor> = 0" by simp
    then show ?thesis using f by (simp add: round_half_even_def Let_def)
  next
    case False
    then have "of_int \<lfloor>x\<rfloor> < x" using of_int_floor_le [of x] by linarith
    then have "of_int \<lfloor>x\<rfloor> < (of_int n :: real)" using h by linarith
    then have "\<lfloor>x\<rfloor> < n" by simp
    then show ?thesis by (simp add: round_half_even_def Let_def)
  qed
qed

lemma round_half_even_ge: "of_int n \<le> x \<Longrightarrow> n \<le> round_half_even x"
proof -
  assume h: "of_int n \<le> x"
  then have "n \<le> \<lfloor>x\<rfloor>" by (simp add: le_floor_iff)
  then show ?thesis by (simp add: round_half_even_def Let_def)
qed

lemma round_half_even_near: "\<bar>of_int (round_half_even x) - x\<bar> \<le> 1 / 2"
proof -
  have "of_int \<lfloor>x\<rfloor> \<le> x" "x < of_int \<lfloor>x\<rfloor> + 1" by linarith+
  then show ?thesis
    by (auto simp add: round_half_even_def Let_def abs_le_iff)
qed

lemma round_half_even_tie_up:
  assumes "even n" "of_int n - 1 / 2 \<le> x"
  shows "n \<le> round_half_even x"
proof -
  have "of_int (n - 1) \<le> x" using assms(2) by simp
  then have f: "n - 1 \<le> \<lfloor>x\<rfloor>" by (simp only: le_floor_iff)
  show ?thesis
  proof (cases "n \<le> \<lfloor>x\<rfloor>")
    case True
    then show ?thesis by (simp add: round_half_even_def Let_def)
  next
    case False
    with f have e: "\<lfloor>x\<rfloor> = n - 1" by simp
    then have o: "odd \<lfloor>x\<rfloor>" using assms(1) by simp
    have "1 / 2 \<le> x - of_int \<lfloor>x\<rfloor>" using assms(2) e by simp
    then have "\<not> x - of_int \<lfloor>x\<rfloor> < 1 / 2" by simp
    then show ?thesis using o e by (simp add: round_half_even_def Let_def)
  qed
qed

text \<open>
  The quotient of two positive integers as a float: its binary exponent, and the
  distance to the quotient.
\<close>

lemma nearest_double_parts:
  assumes "0 < a" "0 < b"
  obtains L e where
    "pow2 L \<le> of_int a / of_int b"
    "of_int a / of_int b < pow2 (L + 1)"
    "e = max (L - 52) (- 1074)"
    "nearest_double a b = of_int (round_half_even (of_int a / of_int b / pow2 e)) * pow2 e"
    "\<bar>nearest_double a b - of_int a / of_int b\<bar> \<le> pow2 e / 2"
proof -
  define L where "L = ilog2 (nat \<bar>a\<bar>) (nat \<bar>b\<bar>)"
  define e where "e = max (L - 52) (- 1074)"
  define q :: real where "q = of_int a / of_int b"
  have na: "0 < nat \<bar>a\<bar>" "real (nat \<bar>a\<bar>) = of_int a" using assms(1) by simp_all
  have nb: "0 < nat \<bar>b\<bar>" "real (nat \<bar>b\<bar>) = of_int b" using assms(2) by simp_all
  have b: "(0::real) < of_int b" using assms(2) by simp
  have "pow2 L * of_int b \<le> of_int a"
    using ilog2_lower [OF na(1) nb(1)] by (simp only: L_def na nb)
  then have lo: "pow2 L \<le> q" using b by (simp add: q_def pos_le_divide_eq)
  have "of_int a < pow2 (L + 1) * of_int b"
    using ilog2_upper [OF na(1) nb(1)] by (simp only: L_def na nb)
  then have hi: "q < pow2 (L + 1)" using b by (simp add: q_def pos_divide_less_eq)
  have nd: "nearest_double a b = of_int (round_half_even (q / pow2 e)) * pow2 e"
    unfolding e_def L_def q_def using assms(1) by (simp add: nearest_double_def Let_def)
  have p: "0 < pow2 e" by (rule pow2_pos)
  have "\<bar>of_int (round_half_even (q / pow2 e)) - q / pow2 e\<bar> * pow2 e \<le> 1 / 2 * pow2 e"
    using round_half_even_near [of "q / pow2 e"] p by (intro mult_right_mono) simp_all
  moreover have "\<bar>of_int (round_half_even (q / pow2 e)) - q / pow2 e\<bar> * pow2 e
      = \<bar>of_int (round_half_even (q / pow2 e)) * pow2 e - q\<bar>"
  proof -
    have "\<bar>of_int (round_half_even (q / pow2 e)) - q / pow2 e\<bar> * pow2 e
        = \<bar>(of_int (round_half_even (q / pow2 e)) - q / pow2 e) * pow2 e\<bar>"
      using p by (simp add: abs_mult)
    also have "(of_int (round_half_even (q / pow2 e)) - q / pow2 e) * pow2 e
        = of_int (round_half_even (q / pow2 e)) * pow2 e - q"
      using p by (simp add: algebra_simps)
    finally show ?thesis .
  qed
  ultimately have er: "\<bar>nearest_double a b - q\<bar> \<le> pow2 e / 2" by (simp add: nd)
  show thesis
    using that [of L e] lo hi e_def nd er by (simp only: q_def)
qed

lemma nearest_double_float:
  assumes "0 \<le> a" "0 < b"
  shows "float_of (of_int a / of_int b) (nearest_double a b)"
proof (cases "a = 0")
  case True
  then show ?thesis by (simp add: nearest_double_def float_of_def)
next
  case False
  then have a: "0 < a" using assms(1) by simp
  define q :: real where "q = of_int a / of_int b"
  have q: "0 < q" using a assms(2) by (simp add: q_def)
  from nearest_double_parts [OF a assms(2)] obtain L e where
    lo: "pow2 L \<le> q" and e: "e = max (L - 52) (- 1074)"
    and er: "\<bar>nearest_double a b - q\<bar> \<le> pow2 e / 2"
    unfolding q_def by blast
  have "pow2 (L - 52) = pow2 L * pow2 (- 52)" using pow2_add [of L "- 52"] by simp
  also have "\<dots> = pow2 L / 2 ^ 52" by (simp add: pow2_def)
  also have "\<dots> \<le> q / 2 ^ 52" using lo by (simp add: divide_right_mono)
  finally have 1: "pow2 (L - 52) \<le> q / 2 ^ 52" .
  have 2: "pow2 (- 1074) = 1 / 2 ^ 1074" by (simp add: pow2_def)
  have "pow2 e \<le> q / 2 ^ 52 + 1 / 2 ^ 1074"
  proof (cases "L - 52 \<le> - 1074")
    case True
    then have "e = - 1074" using e by simp
    then show ?thesis using 2 q by simp
  next
    case False
    then have "e = L - 52" using e by simp
    then show ?thesis using 1 by simp
  qed
  then have "pow2 e / 2 \<le> q / 2 ^ 53 + 1 / 2 ^ 1075" by simp
  with er have "\<bar>nearest_double a b - q\<bar> \<le> \<bar>q\<bar> / 2 ^ 53 + 1 / 2 ^ 1075" using q by simp
  then show ?thesis by (simp only: float_of_def q_def)
qed

text \<open>
  Where the division overflows: the quotients from \<open>2\<^sup>1\<^sup>0\<^sup>2\<^sup>4 - 2\<^sup>9\<^sup>7\<^sup>0\<close> on round to
  \<open>2\<^sup>1\<^sup>0\<^sup>2\<^sup>4\<close> or more, the smaller ones to a finite float.
\<close>

lemma nearest_double_finite:
  assumes "0 \<le> a" "0 < b" "of_int a < (2 ^ 1024 - 2 ^ 970) * (of_int b :: real)"
  shows "nearest_double a b < 2 ^ 1024"
proof (cases "a = 0")
  case True
  then show ?thesis by (simp add: nearest_double_def)
next
  case False
  then have a: "0 < a" using assms(1) by simp
  define q :: real where "q = of_int a / of_int b"
  define T :: real where "T = 2 ^ 1024"
  define H :: real where "H = 2 ^ 970"
  have b: "(0::real) < of_int b" using assms(2) by simp
  have q: "q < T - H" using assms(3) b by (simp add: q_def T_def H_def pos_divide_less_eq)
  from nearest_double_parts [OF a assms(2)] obtain L e where
    lo: "pow2 L \<le> q" and e: "e = max (L - 52) (- 1074)"
    and er: "\<bar>nearest_double a b - q\<bar> \<le> pow2 e / 2"
    unfolding q_def by blast
  have T: "T = pow2 1024" using pow2_nat [of 1024] by (simp add: T_def)
  have H: "H = pow2 971 / 2" using pow2_nat [of 971] by (simp add: H_def)
  have "0 < H" by (simp add: H_def)
  with lo q have "pow2 L < pow2 1024" by (simp add: T)
  then have "L < 1024" by (simp only: pow2_less_iff)
  then have "e \<le> 971" using e by simp
  then have "pow2 e \<le> pow2 971" by (rule pow2_mono)
  then have "pow2 e / 2 \<le> H" by (simp add: H)
  with er have "nearest_double a b \<le> q + H" by linarith
  with q have "nearest_double a b < T" by linarith
  then show ?thesis by (simp only: T_def)
qed

lemma nearest_double_overflow:
  assumes "0 < b" "(2 ^ 1024 - 2 ^ 970) * (of_int b :: real) \<le> of_int a"
  shows "2 ^ 1024 \<le> nearest_double a b"
proof -
  define q :: real where "q = of_int a / of_int b"
  define T :: real where "T = 2 ^ 1024"
  define H :: real where "H = 2 ^ 970"
  have b: "(0::real) < of_int b" using assms(1) by simp
  have TH: "0 < T - H" by (simp add: T_def H_def)
  have q: "T - H \<le> q" using assms(2) b by (simp add: q_def T_def H_def pos_le_divide_eq)
  then have "0 < q" using TH by linarith
  then have "(0::real) < of_int a" using b by (simp add: q_def zero_less_divide_iff)
  then have a: "0 < a" by simp
  from nearest_double_parts [OF a assms(1)] obtain L e where
    hi: "q < pow2 (L + 1)" and e: "e = max (L - 52) (- 1074)"
    and nd: "nearest_double a b = of_int (round_half_even (q / pow2 e)) * pow2 e"
    and lo: "pow2 L \<le> q"
    unfolding q_def by blast
  have T: "T = pow2 1024" using pow2_nat [of 1024] by (simp add: T_def)
  have "pow2 1023 \<le> T - H" using pow2_nat [of 1023] by (simp add: T_def H_def)
  with q hi have "pow2 1023 < pow2 (L + 1)" by linarith
  then have L: "1023 \<le> L" by (simp only: pow2_less_iff)
  then have e': "e = L - 52" using e by simp
  show ?thesis
  proof (cases "L = 1023")
    case True
    then have e971: "e = 971" using e' by simp
    have p: "pow2 e = 2 ^ 971" using pow2_nat [of 971] by (simp add: e971)
    have "(T - H) / 2 ^ 971 \<le> q / 2 ^ 971" using q by (simp add: divide_right_mono)
    moreover have "(T - H) / 2 ^ 971 = of_int (2 ^ 53) - 1 / 2" by (simp add: T_def H_def)
    ultimately have "of_int (2 ^ 53) - 1 / 2 \<le> q / pow2 e" by (simp only: p)
    then have "2 ^ 53 \<le> round_half_even (q / pow2 e)"
      by (intro round_half_even_tie_up) simp_all
    then have "(of_int (2 ^ 53) :: real) \<le> of_int (round_half_even (q / pow2 e))"
      by (simp only: of_int_le_iff)
    then have "of_int (2 ^ 53) * pow2 e \<le> nearest_double a b"
      using pow2_pos [of e] by (simp only: nd mult_le_cancel_right_pos)
    moreover have "of_int (2 ^ 53) * pow2 e = T" by (simp add: p T_def)
    ultimately show ?thesis by (simp only: T_def)
  next
    case False
    with L have L': "1024 \<le> L" by simp
    have "pow2 L = pow2 (e + 52)" by (simp add: e')
    also have "\<dots> = pow2 e * 2 ^ 52" using pow2_nat [of 52] by (simp add: pow2_add)
    finally have pl: "pow2 L = pow2 e * 2 ^ 52" .
    have "pow2 e * 2 ^ 52 \<le> q" using lo by (simp only: pl)
    then have "of_int (2 ^ 52) \<le> q / pow2 e"
      using pow2_pos [of e] by (simp add: pos_le_divide_eq mult.commute)
    then have "2 ^ 52 \<le> round_half_even (q / pow2 e)" by (rule round_half_even_ge)
    then have "(of_int (2 ^ 52) :: real) \<le> of_int (round_half_even (q / pow2 e))"
      by (simp only: of_int_le_iff)
    then have "of_int (2 ^ 52) * pow2 e \<le> nearest_double a b"
      using pow2_pos [of e] by (simp only: nd mult_le_cancel_right_pos)
    moreover have "of_int (2 ^ 52) * pow2 e = pow2 L" by (simp add: pl)
    moreover have "pow2 1024 \<le> pow2 L" using L' by (rule pow2_mono)
    ultimately have "T \<le> nearest_double a b" by (simp only: T)
    then show ?thesis by (simp only: T_def)
  qed
qed

text \<open>Quotients and roundings between 0 and 1.\<close>

lemma ilog2_le: "a \<le> b \<Longrightarrow> ilog2 a b \<le> 0"
  using bitlen_mono [of a b] by (simp add: ilog2_def Let_def)

lemma nearest_double_unit:
  assumes "0 \<le> a" "a \<le> b" "0 < b"
  shows "0 \<le> nearest_double a b \<and> nearest_double a b \<le> 1"
proof (cases "a = 0")
  case True
  then show ?thesis by (simp add: nearest_double_def)
next
  case False
  define e where "e = max (ilog2 (nat \<bar>a\<bar>) (nat \<bar>b\<bar>) - 52) (- 1074)"
  define N :: nat where "N = 2 ^ nat (- e)"
  have "ilog2 (nat \<bar>a\<bar>) (nat \<bar>b\<bar>) \<le> 0" using assms by (intro ilog2_le) simp
  then have e: "e < 0" by (simp add: e_def)
  then have p: "pow2 e = 1 / of_nat N" by (simp add: pow2_def N_def)
  have N: "0 < N" by (simp add: N_def)
  define q :: real where "q = of_int a / of_int b"
  have q: "0 \<le> q" "q \<le> 1" using assms by (simp_all add: q_def)
  have y: "q / pow2 e = q * of_nat N" by (simp add: p)
  have "0 \<le> q * of_nat N" using q by simp
  then have "of_int 0 \<le> q / pow2 e" by (simp add: y)
  then have lo: "0 \<le> round_half_even (q / pow2 e)" by (rule round_half_even_ge)
  have "q * of_nat N \<le> 1 * of_nat N" using q by (intro mult_right_mono) simp_all
  then have "q / pow2 e \<le> of_int (int N)" by (simp add: y)
  then have hi: "round_half_even (q / pow2 e) \<le> int N" by (rule round_half_even_le)
  have nd: "nearest_double a b = of_int (round_half_even (q / pow2 e)) * pow2 e"
    using False by (simp add: nearest_double_def e_def [symmetric] q_def [symmetric])
  have "(of_int (round_half_even (q / pow2 e)) :: real) \<le> of_int (int N)"
    using hi by (simp only: of_int_le_iff)
  then have "(of_int (round_half_even (q / pow2 e)) :: real) / of_nat N \<le> 1" using N by simp
  moreover have "0 \<le> (of_int (round_half_even (q / pow2 e)) :: real) / of_nat N" using lo by simp
  ultimately show ?thesis by (simp add: nd p)
qed

lemma py_round_unit:
  assumes "0 \<le> x" "x \<le> 1"
  shows "0 \<le> py_round x n \<and> py_round x n \<le> 1"
proof -
  have "of_int 0 \<le> x * 10 ^ n" using assms by simp
  then have lo: "0 \<le> round_half_even (x * 10 ^ n)" by (rule round_half_even_ge)
  have "x * 10 ^ n \<le> 1 * 10 ^ n" using assms by (intro mult_right_mono) simp_all
  then have "x * 10 ^ n \<le> of_int (10 ^ n)" by simp
  then have hi: "round_half_even (x * 10 ^ n) \<le> 10 ^ n" by (rule round_half_even_le)
  show ?thesis unfolding py_round_def
    by (rule nearest_double_unit [OF lo hi]) simp
qed

lemma nearest_double_nonneg:
  assumes "0 \<le> a" "0 < b"
  shows "0 \<le> nearest_double a b"
proof (cases "a = 0")
  case True
  then show ?thesis by (simp add: nearest_double_def)
next
  case False
  define e where "e = max (ilog2 (nat \<bar>a\<bar>) (nat \<bar>b\<bar>) - 52) (- 1074)"
  define q :: real where "q = of_int a / of_int b"
  have "0 \<le> q" using assms by (simp add: q_def)
  then have "of_int 0 \<le> q / pow2 e" using pow2_pos [of e] by simp
  then have "0 \<le> round_half_even (q / pow2 e)" by (rule round_half_even_ge)
  then have "0 \<le> of_int (round_half_even (q / pow2 e)) * pow2 e"
    using pow2_pos [of e] by simp
  then show ?thesis
    using False by (simp add: nearest_double_def e_def [symmetric] q_def [symmetric])
qed


lemma py_round_spec:
  assumes "0 \<le> x"
  shows "\<exists>k. decimal_of 4 x k \<and> float_of (of_int k / 10 ^ 4) (py_round x 4)
    \<and> 0 \<le> py_round x 4"
proof -
  define k where "k = round_half_even (x * 10 ^ 4)"
  have "of_int 0 \<le> x * 10 ^ 4" using assms by simp
  then have k0: "0 \<le> k" unfolding k_def by (rule round_half_even_ge)
  have d: "decimal_of 4 x k"
    using round_half_even_near [of "x * 10 ^ 4"]
    by (simp only: decimal_of_def k_def abs_minus_commute)
  have r: "py_round x 4 = nearest_double k (10 ^ 4)" by (simp only: py_round_def k_def)
  have "float_of (of_int k / of_int (10 ^ 4)) (nearest_double k (10 ^ 4))"
    using k0 by (intro nearest_double_float) simp_all
  then have f: "float_of (of_int k / 10 ^ 4) (py_round x 4)" by (simp add: r)
  have "0 \<le> nearest_double k (10 ^ 4)" using k0 by (intro nearest_double_nonneg) simp_all
  then have "0 \<le> py_round x 4" by (simp only: r)
  with d f show ?thesis by blast
qed

text \<open>The two properties of \<open>models.py\<close> on counters that are non-negative integers.\<close>

lemma missed_rate_value:
  assumes "py_int (missed_requests (current_epoch_stats p)) = Inr m"
    and "py_int (inference_count (current_epoch_stats p)) = Inr i"
    and "0 \<le> m" and "0 \<le> i"
  shows "missed_rate p = Inr (if m + i = 0 then 0 else py_round (nearest_double m (m + i)) 4)"
proof (cases "m + i = 0")
  case True
  then show ?thesis using assms(1,2) by (simp add: missed_rate_def)
next
  case False
  then have pos: "0 < m + i" using assms(3,4) by simp
  have u: "0 \<le> nearest_double m (m + i) \<and> nearest_double m (m + i) \<le> 1"
    using assms(3,4) pos by (intro nearest_double_unit) simp_all
  have "(1::real) < 2 ^ 1024" by (rule one_less_power) simp_all
  with u have "\<not> 2 ^ 1024 \<le> \<bar>nearest_double m (m + i)\<bar>" by simp
  then show ?thesis using assms(1,2) False
    by (simp add: missed_rate_def py_truediv_def Let_def)
qed

lemma invalidation_rate_value:
  assumes "py_int (invalidated_inferences (current_epoch_stats p)) = Inr v"
    and "py_int (inference_count (current_epoch_stats p)) = Inr i"
    and "0 \<le> v" and "0 \<le> i"
  shows "invalidation_rate p =
        (if i = 0 then Inr 0
         else if 2 ^ 1024 \<le> nearest_double v i then Inl OverflowError
         else Inr (py_round (nearest_double v i) 4))"
proof (cases "i = 0")
  case True
  then show ?thesis using assms(1,2) by (simp add: invalidation_rate_def)
next
  case False
  then have "0 < i" using assms(4) by simp
  then have "0 \<le> nearest_double v i" using assms(3) by (intro nearest_double_nonneg)
  then have "\<bar>nearest_double v i\<bar> = nearest_double v i" by simp
  then show ?thesis using assms(1,2) False
    by (simp add: invalidation_rate_def py_truediv_def Let_def)
qed

text \<open>
  C7, amended. For participant statistics whose counters are decimal strings of
  non-negative integers: \<open>missed_rate\<close> is 0 when \<open>missed_requests + inference_count\<close>
  is 0; otherwise it is the quotient \<open>missed / (missed + inferences)\<close> rounded to 4
  decimals (the float of the quotient, its rounding to a decimal of 4 digits, and the
  float of that decimal) and lies between 0 and 1. \<open>invalidation_rate\<close> is 0 when
  \<open>inference_count\<close> is 0; otherwise it is the quotient \<open>invalidated / inferences\<close>
  rounded to 4 decimals in the same sense as long as the quotient is below
  \<open>2\<^sup>1\<^sup>0\<^sup>2\<^sup>4 - 2\<^sup>9\<^sup>7\<^sup>0\<close>, and from there on the property raises \<open>OverflowError\<close>;
  it lies between 0 and 1 when no more inferences are invalidated than were counted.
\<close>

theorem rates_rounded:
  assumes "py_int (missed_requests (current_epoch_stats p)) = Inr m"
    and "py_int (inference_count (current_epoch_stats p)) = Inr i"
    and "py_int (invalidated_inferences (current_epoch_stats p)) = Inr v"
    and "0 \<le> m" and "0 \<le> i" and "0 \<le> v"
  shows "(m + i = 0 \<longrightarrow> missed_rate p = Inr 0)
    \<and> (m + i \<noteq> 0 \<longrightarrow>
         (\<exists>r x k. missed_rate p = Inr r \<and> 0 \<le> r \<and> r \<le> 1
            \<and> float_of (of_int m / of_int (m + i)) x \<and> decimal_of 4 x k
            \<and> float_of (of_int k / 10 ^ 4) r
            \<and> r = py_round (nearest_double m (m + i)) 4))
    \<and> (i = 0 \<longrightarrow> invalidation_rate p = Inr 0)
    \<and> (i \<noteq> 0 \<and> v < (2 ^ 1024 - 2 ^ 970) * i \<longrightarrow>
         (\<exists>r x k. invalidation_rate p = Inr r \<and> 0 \<le> r
            \<and> float_of (of_int v / of_int i) x \<and> decimal_of 4 x k
            \<and> float_of (of_int k / 10 ^ 4) r
            \<and> r = py_round (nearest_double v i) 4))
    \<and> (i \<noteq> 0 \<and> (2 ^ 1024 - 2 ^ 970) * i \<le> v \<longrightarrow>
         invalidation_rate p = Inl OverflowError)
    \<and> (v \<le> i \<longrightarrow> (\<exists>r. invalidation_rate p = Inr r \<and> 0 \<le> r \<and> r \<le> 1))"
proof -
  note mv = missed_rate_value [OF assms(1,2,4,5)]
  note iv = invalidation_rate_value [OF assms(3,2,6,5)]
  have c1: "m + i = 0 \<longrightarrow> missed_rate p = Inr 0" using mv by simp
  have c2: "m + i \<noteq> 0 \<longrightarrow>
         (\<exists>r x k. missed_rate p = Inr r \<and> 0 \<le> r \<and> r \<le> 1
            \<and> float_of (of_int m / of_int (m + i)) x \<and> decimal_of 4 x k
            \<and> float_of (of_int k / 10 ^ 4) r
            \<and> r = py_round (nearest_double m (m + i)) 4)"
  proof
    assume ne: "m + i \<noteq> 0"
    then have pos: "0 < m + i" using assms(4,5) by simp
    define x where "x = nearest_double m (m + i)"
    have u: "0 \<le> x \<and> x \<le> 1"
      unfolding x_def using assms(4,5) pos by (intro nearest_double_unit) simp_all
    have fx: "float_of (of_int m / of_int (m + i)) x"
      unfolding x_def using assms(4) pos by (rule nearest_double_float)
    from u have ur: "0 \<le> py_round x 4 \<and> py_round x 4 \<le> 1"
      by (intro py_round_unit) simp_all
    from u py_round_spec [of x] obtain k where
      k: "decimal_of 4 x k" "float_of (of_int k / 10 ^ 4) (py_round x 4)" by blast
    have "missed_rate p = Inr (py_round x 4)" using mv ne by (simp add: x_def)
    with ur fx k show "\<exists>r x k. missed_rate p = Inr r \<and> 0 \<le> r \<and> r \<le> 1
            \<and> float_of (of_int m / of_int (m + i)) x \<and> decimal_of 4 x k
            \<and> float_of (of_int k / 10 ^ 4) r
            \<and> r = py_round (nearest_double m (m + i)) 4"
      unfolding x_def by blast
  qed
  have c3: "i = 0 \<longrightarrow> invalidation_rate p = Inr 0" using iv by simp
  have c4: "i \<noteq> 0 \<and> v < (2 ^ 1024 - 2 ^ 970) * i \<longrightarrow>
         (\<exists>r x k. invalidation_rate p = Inr r \<and> 0 \<le> r
            \<and> float_of (of_int v / of_int i) x \<and> decimal_of 4 x k
            \<and> float_of (of_int k / 10 ^ 4) r
            \<and> r = py_round (nearest_double v i) 4)"
  proof
    assume h: "i \<noteq> 0 \<and> v < (2 ^ 1024 - 2 ^ 970) * i"
    then have pos: "0 < i" using assms(5) by simp
    from h have "(of_int v :: real) < of_int ((2 ^ 1024 - 2 ^ 970) * i)"
      by (simp only: of_int_less_iff)
    then have lt: "of_int v < (2 ^ 1024 - 2 ^ 970) * (of_int i :: real)" by simp
    define x where "x = nearest_double v i"
    have fin: "x < 2 ^ 1024" unfolding x_def using assms(6) pos lt by (rule nearest_double_finite)
    have x0: "0 \<le> x" unfolding x_def using assms(6) pos by (rule nearest_double_nonneg)
    have fx: "float_of (of_int v / of_int i) x"
      unfolding x_def using assms(6) pos by (rule nearest_double_float)
    from x0 py_round_spec [of x] obtain k where
      k: "decimal_of 4 x k" "float_of (of_int k / 10 ^ 4) (py_round x 4)" "0 \<le> py_round x 4"
      by blast
    have "invalidation_rate p = Inr (py_round x 4)" using iv h fin by (simp add: x_def)
    with fx k show "\<exists>r x k. invalidation_rate p = Inr r \<and> 0 \<le> r
            \<and> float_of (of_int v / of_int i) x \<and> decimal_of 4 x k
            \<and> float_of (of_int k / 10 ^ 4) r
            \<and> r = py_round (nearest_double v i) 4"
      unfolding x_def by blast
  qed
  have c5: "i \<noteq> 0 \<and> (2 ^ 1024 - 2 ^ 970) * i \<le> v \<longrightarrow>
         invalidation_rate p = Inl OverflowError"
  proof
    assume h: "i \<noteq> 0 \<and> (2 ^ 1024 - 2 ^ 970) * i \<le> v"
    then have pos: "0 < i" using assms(5) by simp
    from h have "(of_int ((2 ^ 1024 - 2 ^ 970) * i) :: real) \<le> of_int v"
      by (simp only: of_int_le_iff)
    then have "(2 ^ 1024 - 2 ^ 970) * (of_int i :: real) \<le> of_int v" by simp
    with pos have "2 ^ 1024 \<le> nearest_double v i" by (rule nearest_double_overflow)
    then show "invalidation_rate p = Inl OverflowError" using iv h by simp
  qed
  have c6: "v \<le> i \<longrightarrow> (\<exists>r. invalidation_rate p = Inr r \<and> 0 \<le> r \<and> r \<le> 1)"
  proof
    assume le: "v \<le> i"
    show "\<exists>r. invalidation_rate p = Inr r \<and> 0 \<le> r \<and> r \<le> 1"
    proof (cases "i = 0")
      case True
      then show ?thesis using iv by simp
    next
      case False
      then have pos: "0 < i" using assms(5) by simp
      have u: "0 \<le> nearest_double v i \<and> nearest_double v i \<le> 1"
        using assms(6) le pos by (intro nearest_double_unit)
      have "(1::real) < 2 ^ 1024" by (rule one_less_power) simp_all
      with u have n: "\<not> 2 ^ 1024 \<le> nearest_double v i" by simp
      from u have "0 \<le> py_round (nearest_double v i) 4 \<and> py_round (nearest_double v i) 4 \<le> 1"
        by (intro py_round_unit) simp_all
      then show ?thesis using iv False n by simp
    qed
  qed
  from c1 c2 c3 c4 c5 c6 show ?thesis by (intro conjI)
qed

text \<open>The equations that evaluate the numeric functions on literals.\<close>

lemmas num_eval =
  py_int_def py_strip_def is_py_space_def py_digits_def max_str_digits_def digit_val_def
  nearest_double_def ilog2_def bitlen.simps pow2_def round_half_even_def
  py_round_def py_truediv_def Let_def

text \<open>
  Two roundings at a decimal tie: the float nearest to \<open>1 / 20000\<close> lies above the tie
  and goes up to 0.0001; \<open>1 / 32\<close> is a float, lies on the tie and goes to the even
  0.0312.
\<close>

lemma py_round_ties:
  "py_round (nearest_double 1 20000) 4 = nearest_double 1 10000"
  "py_round (nearest_double 1 32) 4 = nearest_double 312 10000"
  by (simp_all add: num_eval)

text \<open>
  What \<open>int()\<close> strips: a tab, a line feed and a no-break space are whitespace, the
  separator 28 is not.
\<close>

lemma py_int_spaces:
  "py_int [CHR 0x09, CHR ''5'', CHR 0x0A] = Inr 5"
  "py_int [CHR 0xA0, CHR ''-'', CHR ''5''] = Inr (- 5)"
  "py_int [CHR 0x1C, CHR ''5''] = Inl ValueError"
  "py_int ''5 0'' = Inl ValueError"
  "py_int ''1_000'' = Inr 1000"
  "py_int [] = Inl ValueError"
  "py_int ''0.0'' = Inl ValueError"
  by (simp_all add: num_eval)

text \<open>
  With 7 inferences, 2 missed requests and 5 invalidated inferences the rates are the
  floats 0.2222 and 0.7143.
\<close>

theorem rates_rounded_witness:
  "missed_rate (stats_participant ''7'' ''2'' ''5'')
     = Inr (4002799348806897 / 18014398509481984)
   \<and> invalidation_rate (stats_participant ''7'' ''2'' ''5'')
     = Inr (6433842427661491 / 9007199254740992)"
proof -
  let ?p = "stats_participant ''7'' ''2'' ''5''"
  have h: "py_int (missed_requests (current_epoch_stats ?p)) = Inr 2"
    "py_int (inference_count (current_epoch_stats ?p)) = Inr 7"
    "py_int (invalidated_inferences (current_epoch_stats ?p)) = Inr 5"
    "(0::int) \<le> 2" "(0::int) \<le> 7" "(0::int) \<le> 5"
    by (simp_all add: stats_participant_def stats_of_def num_eval)
  note t = rates_rounded [OF h]
  have "(2::int) + 7 \<noteq> 0" by simp
  with t obtain r where r: "missed_rate ?p = Inr r" "r = py_round (nearest_double 2 (2 + 7)) 4"
    by blast
  have "(7::int) \<noteq> 0 \<and> (5::int) < (2 ^ 1024 - 2 ^ 970) * 7" by simp
  with t obtain r' where r': "invalidation_rate ?p = Inr r'" "r' = py_round (nearest_double 5 7) 4"
    by blast
  have "py_round (nearest_double 2 (2 + 7)) 4 = 4002799348806897 / 18014398509481984"
    by (simp add: num_eval)
  moreover have "py_round (nearest_double 5 7) 4 = 6433842427661491 / 9007199254740992"
    by (simp add: num_eval)
  ultimately show ?thesis using r r' by simp
qed

text \<open>
  C7 as stated fails: counters are decimal strings of unbounded precision, and with
  \<open>2 \<times> 10\<^sup>3\<^sup>0\<^sup>8\<close> invalidated inferences on 1 inference the quotient is no float: the
  property raises \<open>OverflowError\<close> and has no value.
\<close>

theorem invalidation_rate_overflow_counterexample:
  "py_int (invalidated_inferences (current_epoch_stats (stats_participant ''1'' ''0'' huge_count)))
     = Inr (2 * 10 ^ 308)
   \<and> py_int (inference_count (current_epoch_stats (stats_participant ''1'' ''0'' huge_count)))
     = Inr 1
   \<and> invalidation_rate (stats_participant ''1'' ''0'' huge_count) = Inl OverflowError"
proof -
  let ?p = "stats_participant ''1'' ''0'' huge_count"
  have v: "py_int (invalidated_inferences (current_epoch_stats ?p)) = Inr (2 * 10 ^ 308)"
    by (simp add: stats_participant_def stats_of_def huge_count_def num_eval)
  have i: "py_int (inference_count (current_epoch_stats ?p)) = Inr 1"
    by (simp add: stats_participant_def stats_of_def num_eval)
  have "(2 ^ 1024 - 2 ^ 970) * (of_int 1 :: real) \<le> of_int (2 * 10 ^ 308)" by simp
  then have "2 ^ 1024 \<le> nearest_double (2 * 10 ^ 308) 1"
    by (intro nearest_double_overflow) simp_all
  moreover have "invalidation_rate ?p =
        (if (1::int) = 0 then Inr 0
         else if 2 ^ 1024 \<le> nearest_double (2 * 10 ^ 308) 1 then Inl OverflowError
         else Inr (py_round (nearest_double (2 * 10 ^ 308) 1) 4))"
    using v i by (intro invalidation_rate_value) simp_all
  ultimately have "invalidation_rate ?p = Inl OverflowError" by simp
  with v i show ?thesis by simp
qed
section \<open>Total rewards\<close>



lemma rewards_loop_skip:
  "summary_amount c e p = None \<Longrightarrow> rewards_loop c e (p # ps) acc = rewards_loop c e ps acc"
  by (auto simp add: summary_amount_def split: sum.splits)

lemma rewards_loop_all_failed:
  "\<forall>p \<in> set ps. summary_amount c e p = None \<Longrightarrow> rewards_loop c e ps acc = acc"
proof (induction ps arbitrary: acc)
  case Nil
  show ?case by simp
next
  case (Cons p ps)
  then have "summary_amount c e p = None" by simp
  then have "rewards_loop c e (p # ps) acc = rewards_loop c e ps acc"
    by (rule rewards_loop_skip)
  with Cons show ?case by simp
qed


text \<open>
  C10. When the epoch's participants are known and the summary of every one of them
  fails to be fetched, the calculation stores a total of 0 GNK for the epoch.
\<close>

theorem all_failed_caches_zero:
  assumes "get_epoch_participants c e = Inr epoch_data"
    and "\<forall>p \<in> set (eg_participants epoch_data).
           \<exists>err. get_epoch_performance_summary c e (ep_index p) = Inl err"
  shows "epoch_total_rewards (calculate_and_cache_total_rewards c e db) e = Some 0"
proof -
  from assms(2) have "\<forall>p \<in> set (eg_participants epoch_data). summary_amount c e p = None"
    by (auto simp add: summary_amount_def)
  then have "rewards_loop c e (eg_participants epoch_data) rewards_start = rewards_start"
    by (rule rewards_loop_all_failed)
  then show ?thesis
    using assms(1)
    by (simp add: calculate_and_cache_total_rewards_def Let_def rewards_start_def
        save_epoch_total_rewards_def)
qed



theorem all_failed_caches_zero_witness:
  "epoch_total_rewards (calculate_and_cache_total_rewards (scenario_d ''0'') 42 empty_db) 42
     = Some 0"
proof -
  let ?ed = "\<lparr>epoch_group_id = 42, effective_block_height = 10100,
             eg_participants = [active_participant ''P1'' 100 []]\<rparr>"
  have 1: "get_epoch_participants (scenario_d ''0'') 42 = Inr ?ed"
    by (simp add: scenario_d_def)
  have 2: "\<forall>p \<in> set (eg_participants ?ed).
             \<exists>err. get_epoch_performance_summary (scenario_d ''0'') 42 (ep_index p) = Inl err"
    by (simp add: scenario_d_def)
  from all_failed_caches_zero [OF 1 2] show ?thesis .
qed


section \<open>Warm keys and ML nodes\<close>

lemma sort_key_Nil_iff: "sort_key f xs = [] \<longleftrightarrow> xs = []"
  by (metis length_0_conv length_sort)

lemma get_warm_keys_not_empty: "get_warm_keys db e pid \<noteq> Some []"
  by (simp add: get_warm_keys_def Let_def sort_key_Nil_iff)

lemma save_no_warm_keys:
  "get_warm_keys db e pid = None \<Longrightarrow> save_warm_keys_batch db e pid [] = Inr db1
     \<Longrightarrow> get_warm_keys db1 e pid = None"
  by (auto simp add: get_warm_keys_def save_warm_keys_batch_def Let_def split: if_splits)

text \<open>
  C6, as amended. For a participant with no warm-key row in the store for the epoch,
  \<open>get_participant_details\<close> fetches the authz grants inline; when the fetched list is
  empty it returns the empty list and stores nothing, so the next read finds the store as
  it was and fetches again.
\<close>

theorem warm_keys_empty_not_remembered:
  assumes "get_warm_keys db e pid = None"
    and "get_authz_grants c pid = Inr []"
  shows "details_warm_keys c e pid db = ([], True, db)
    \<and> details_warm_keys c e pid (snd (snd (details_warm_keys c e pid db))) = ([], True, db)"
  using assms by (simp add: details_warm_keys_def)

theorem warm_keys_empty_not_remembered_witness:
  "details_warm_keys (registry None) 42 ''P1'' empty_db = ([], True, empty_db)
   \<and> details_warm_keys (registry None) 42 ''P1''
        (snd (snd (details_warm_keys (registry None) 42 ''P1'' empty_db))) = ([], True, empty_db)"
proof -
  have "get_warm_keys empty_db 42 ''P1'' = None"
    by (simp add: get_warm_keys_def empty_db_def)
  moreover have "get_authz_grants (registry None) ''P1'' = Inr []"
    by (simp add: registry_def)
  ultimately show ?thesis by (rule warm_keys_empty_not_remembered)
qed

text \<open>
  C6 as stated fails: after an inline fetch that returned no grant, the store still
  answers \<open>None\<close> (never the empty list), and the second read calls
  \<open>get_authz_grants\<close> again.
\<close>

theorem warm_keys_refetched_counterexample:
  "get_warm_keys empty_db 42 ''P1'' = None
   \<and> get_authz_grants (registry None) ''P1'' = Inr []
   \<and> get_warm_keys (snd (snd (details_warm_keys (registry None) 42 ''P1'' empty_db))) 42 ''P1''
       \<noteq> Some []
   \<and> fst (snd (details_warm_keys (registry None) 42 ''P1''
        (snd (snd (details_warm_keys (registry None) 42 ''P1'' empty_db))))) \<noteq> False"
  by (simp add: details_warm_keys_def get_warm_keys_def empty_db_def registry_def)

text \<open>
  The weight of an ML node: the epoch's value when the map holds a value other than 0 for
  the node, else the value of the hardware registry.
\<close>

lemma poc_weight_from_map:
  "ml_nodes_map (or_empty (hw_local_id node)) = Some w \<Longrightarrow> w \<noteq> 0
     \<Longrightarrow> ml_poc_weight (ml_node_info ml_nodes_map node) = Some w"
  by (simp add: ml_node_info_def py_or_def Let_def)

lemma poc_weight_from_registry:
  "ml_nodes_map (or_empty (hw_local_id node)) = None
     \<Longrightarrow> ml_poc_weight (ml_node_info ml_nodes_map node) = hw_poc_weight node"
  by (simp add: ml_node_info_def py_or_def Let_def)

lemma poc_weight_zero_in_map:
  "ml_nodes_map (or_empty (hw_local_id node)) = Some 0
     \<Longrightarrow> ml_poc_weight (ml_node_info ml_nodes_map node) = hw_poc_weight node"
  by (simp add: ml_node_info_def py_or_def Let_def)

text \<open>
  C8 at an input where the code departs from it: the epoch's map holds weight 0 for
  \<open>node1\<close> of participant P1, the registry holds 7, and the details carry 7.
\<close>

theorem poc_weight_zero_overridden:
  "details_ml_nodes_map (cache_db (during_41 [10050])) 41 None ''P1'' ''node1'' = Some 0
   \<and> map ml_local_id (fst (details_ml_nodes (registry (Some 7)) 41 None ''P1''
        (cache_db (during_41 [10050])))) = [''node1'']
   \<and> map ml_poc_weight (fst (details_ml_nodes (registry (Some 7)) 41 None ''P1''
        (cache_db (during_41 [10050])))) = [Some 7]"
  by (simp add: details_ml_nodes_def details_ml_nodes_map_def get_stats_def during_41_def
      save_stats_batch_def upsert_stats_def empty_db_def stats_p1_def upstream_participant_def
      registry_def get_hardware_nodes_def save_hardware_nodes_batch_def or_empty_def
      ml_node_info_def py_or_def Let_def)


section \<open>Current epoch\<close>

lemma historical_keeps_memory:
  "current_epoch_data (snd (get_historical_epoch_stats c e height_opt sync s)) = current_epoch_data s"
  by (simp add: get_historical_epoch_stats_def create_task_def Let_def
      split: sum.splits option.splits)

lemma mark_keeps_memory:
  "current_epoch_data (mark_epoch_finished_if_needed c e h s) = current_epoch_data s"
  by (simp add: mark_epoch_finished_if_needed_def historical_keeps_memory split: option.splits)

lemma failed_fetch_keeps_memory:
  "fst (fetch_current_epoch_stats c now s) = Inl err
     \<Longrightarrow> current_epoch_data (snd (fetch_current_epoch_stats c now s)) = current_epoch_data s"
  by (simp add: fetch_current_epoch_stats_def mark_keeps_memory Let_def split: sum.splits)

lemma fetch_fails_without_height:
  "get_latest_height c = Inl err \<Longrightarrow> fetch_current_epoch_stats c now s = (Inl err, s)"
  by (simp add: fetch_current_epoch_stats_def)

text \<open>
  C5. When the call is not answered from memory and the fresh fetch fails with an error,
  \<open>get_current_epoch_stats\<close> returns the response cached in memory when there is one,
  and lets the error through when there is none.
\<close>

theorem fresh_fetch_failure:
  assumes "\<not> served_from_memory now reload s"
    and "fst (fetch_current_epoch_stats c now s) = Inl err"
  shows "fst (get_current_epoch_stats c now reload s)
    = (case current_epoch_data s of Some cached \<Rightarrow> Inr cached | None \<Rightarrow> Inl err)"
proof -
  obtain r s1 where f: "fetch_current_epoch_stats c now s = (r, s1)"
    by (cases "fetch_current_epoch_stats c now s")
  with assms(2) have r: "r = Inl err" by simp
  from failed_fetch_keeps_memory [OF assms(2)] f
  have m: "current_epoch_data s1 = current_epoch_data s" by simp
  show ?thesis
    using assms(1) f r m by (simp add: get_current_epoch_stats_def split: option.splits)
qed

theorem fresh_fetch_failure_witness:
  "fst (get_current_epoch_stats down 2000 True cold) = Inl UpstreamUnavailable
   \<and> fst (get_current_epoch_stats down 2000 True
        (cold\<lparr>current_epoch_data := Some \<lparr>resp_epoch_id = 42, resp_height = 10500,
           resp_participants = [], resp_is_current = True,
           resp_total_assigned_rewards_gnk = None\<rparr>, last_fetch_time := Some 1000\<rparr>))
      = Inr \<lparr>resp_epoch_id = 42, resp_height = 10500, resp_participants = [],
             resp_is_current = True, resp_total_assigned_rewards_gnk = None\<rparr>"
proof -
  let ?r = "\<lparr>resp_epoch_id = 42, resp_height = 10500, resp_participants = [],
             resp_is_current = True, resp_total_assigned_rewards_gnk = None\<rparr>"
  let ?s = "cold\<lparr>current_epoch_data := Some ?r, last_fetch_time := Some 1000\<rparr>"
  have n: "\<not> served_from_memory 2000 True s" for s
    by (simp add: served_from_memory_def)
  have f: "fst (fetch_current_epoch_stats down 2000 s) = Inl UpstreamUnavailable" for s
    by (simp add: fetch_current_epoch_stats_def down_def)
  have "fst (get_current_epoch_stats down 2000 True cold) = Inl UpstreamUnavailable"
    using fresh_fetch_failure [OF n f, of cold] by (simp add: cold_def)
  moreover have "fst (get_current_epoch_stats down 2000 True ?s) = Inr ?r"
    using fresh_fetch_failure [OF n f, of ?s] by simp
  ultimately show ?thesis by simp
qed


section \<open>Fetching an epoch\<close>

text \<open>
  The participants of a response follow the order of the all-participants answer,
  restricted to the indices of the epoch group and to the objects that parse.
\<close>

lemma participant_entry_index:
  "participant_entry epoch_data p = Some (ps, sd) \<Longrightarrow> index ps = p_index p"
  by (auto simp add: participant_entry_def Let_def split: option.splits)

lemma build_participants_order:
  "map index (fst (build_participants epoch_data participants_list))
     = map p_index
         (filter (\<lambda>p. p_index p \<in> set (map ep_index (eg_participants epoch_data))
                      \<and> participant_entry epoch_data p \<noteq> None)
            participants_list)"
proof (induction participants_list)
  case Nil
  show ?case by (simp add: build_participants_def List.map_filter_simps)
next
  case (Cons p ps)
  then show ?case
    by (cases "participant_entry epoch_data p")
       (auto simp add: build_participants_def List.map_filter_simps Let_def
          dest: participant_entry_index)
qed

text \<open>The equations that evaluate the service on the example inputs.\<close>

lemmas service_eval =
  get_current_epoch_stats_def served_from_memory_def fetch_current_epoch_stats_def
  mark_epoch_finished_if_needed_def get_historical_epoch_stats_def get_canonical_height_def
  calculate_and_cache_total_rewards_def rewards_start_def coins_of_def
  build_participants_def participant_entry_def parse_cached_def merge_jail_and_health_data_def
  extract_ml_nodes_map_def create_task_def List.map_filter_simps
  save_stats_batch_def upsert_stats_def get_stats_def is_epoch_finished_def
  mark_epoch_finished_def save_reward_batch_def save_epoch_total_rewards_def
  get_epoch_total_rewards_def delete_epoch_total_rewards_def empty_db_def

lemmas example_eval =
  scenario_a_def scenario_d_def down_def cold_def during_41_def stats_p1_def
  upstream_participant_def active_participant_def stats_of_def

text \<open>
  The two branches of the historical fetch: with cached stats at the target height no
  statement of the call writes \<open>epoch_status\<close>; without them no statement of the call
  writes \<open>epoch_total_rewards\<close>, whatever \<open>calculate_rewards_sync\<close> is (the
  computation is left to a task).
\<close>

lemma calculate_keeps_status:
  "epoch_status (calculate_and_cache_total_rewards c e db) = epoch_status db"
  by (simp add: calculate_and_cache_total_rewards_def save_reward_batch_def
      save_epoch_total_rewards_def Let_def split: sum.splits)

lemma historical_cached_keeps_status:
  assumes "get_canonical_height c e height_opt = Inr target_height"
    and "get_stats (cache_db s) e (Some target_height) \<noteq> None"
  shows "epoch_status (cache_db (snd (get_historical_epoch_stats c e height_opt sync s)))
    = epoch_status (cache_db s)"
  using assms
  by (auto simp add: get_historical_epoch_stats_def create_task_def Let_def
      calculate_keeps_status delete_epoch_total_rewards_def split: sum.splits)

lemma historical_fresh_keeps_totals:
  assumes "get_stats (cache_db s) e (Some target_height) = None"
    and "get_canonical_height c e height_opt = Inr target_height"
  shows "epoch_total_rewards (cache_db (snd (get_historical_epoch_stats c e height_opt sync s)))
    = epoch_total_rewards (cache_db s)"
  using assms
  by (auto simp add: get_historical_epoch_stats_def create_task_def Let_def
      save_stats_batch_def mark_epoch_finished_def get_epoch_total_rewards_def
      split: sum.splits)

lemma two_listing:
  assumes "distinct xs" "set xs = {a, b}" "a \<noteq> b"
  shows "xs = [a, b] \<or> xs = [b, a]"
proof -
  have "length xs = card (set xs)" using assms(1) by (simp add: distinct_card)
  then have "length xs = 2" using assms(2,3) by simp
  then obtain x y where "xs = [x, y]"
    by (auto simp add: length_Suc_conv numeral_2_eq_2)
  with assms show ?thesis by (auto simp add: doubleton_eq_iff)
qed

text \<open>
  C9, amended. Scenario A: a cold service, upstream with the active participants P1 and
  P2 of weight 100 and 200, and an all-participants answer that lists the two
  participants, with inference counts 10 and 5 and missed requests 0 and 5, in either
  order. The response of the current-epoch fetch carries the epoch id of upstream, is
  marked current, lists the participants in the order of the all-participants answer,
  with their weights, and the missed rate of P2 is 0.5.
\<close>

theorem scenario_a_order:
  assumes "distinct participants_list"
    and "set participants_list
      = {upstream_participant ''P1'' ''10'' ''0'', upstream_participant ''P2'' ''5'' ''5''}"
  shows "\<exists>r upstream.
       get_current_epoch_participants (scenario_a_listing e h participants_list) = Inr upstream
     \<and> fst (get_current_epoch_stats (scenario_a_listing e h participants_list) now reload cold)
         = Inr r
     \<and> resp_epoch_id r = epoch_group_id upstream
     \<and> resp_epoch_id r = e
     \<and> resp_is_current r
     \<and> map index (resp_participants r) = map p_index participants_list
     \<and> (\<forall>p \<in> set (resp_participants r).
           weight p = (if index p = ''P1'' then 100 else 200))
     \<and> (\<forall>p \<in> set (resp_participants r). index p = ''P2'' \<longrightarrow> missed_rate p = Inr (1 / 2))"
proof -
  have "upstream_participant ''P1'' ''10'' ''0'' \<noteq> upstream_participant ''P2'' ''5'' ''5''"
    by (simp add: upstream_participant_def)
  with assms have "participants_list
        = [upstream_participant ''P1'' ''10'' ''0'', upstream_participant ''P2'' ''5'' ''5'']
      \<or> participants_list
        = [upstream_participant ''P2'' ''5'' ''5'', upstream_participant ''P1'' ''10'' ''0'']"
    by (intro two_listing)
  then show ?thesis
  proof
    assume "participants_list
        = [upstream_participant ''P1'' ''10'' ''0'', upstream_participant ''P2'' ''5'' ''5'']"
    then show ?thesis
      by (simp add: scenario_a_listing_def service_eval example_eval missed_rate_def num_eval)
  next
    assume "participants_list
        = [upstream_participant ''P2'' ''5'' ''5'', upstream_participant ''P1'' ''10'' ''0'']"
    then show ?thesis
      by (simp add: scenario_a_listing_def service_eval example_eval missed_rate_def num_eval)
  qed
qed

text \<open>
  With the all-participants answer P2, P1 the response lists P2 first, and P2 has the
  weight 200 and the missed rate 0.5.
\<close>

theorem scenario_a_order_witness:
  "\<exists>r upstream.
       get_current_epoch_participants
         (scenario_a_listing 42 10500
            [upstream_participant ''P2'' ''5'' ''5'', upstream_participant ''P1'' ''10'' ''0''])
         = Inr upstream
     \<and> fst (get_current_epoch_stats
         (scenario_a_listing 42 10500
            [upstream_participant ''P2'' ''5'' ''5'', upstream_participant ''P1'' ''10'' ''0''])
         0 False cold) = Inr r
     \<and> resp_epoch_id r = epoch_group_id upstream
     \<and> resp_epoch_id r = 42
     \<and> resp_is_current r
     \<and> map index (resp_participants r) = [''P2'', ''P1'']
     \<and> (\<forall>p \<in> set (resp_participants r).
           weight p = (if index p = ''P1'' then 100 else 200))
     \<and> (\<forall>p \<in> set (resp_participants r). index p = ''P2'' \<longrightarrow> missed_rate p = Inr (1 / 2))"
proof -
  let ?ps = "[upstream_participant ''P2'' ''5'' ''5'', upstream_participant ''P1'' ''10'' ''0'']"
  have 1: "distinct ?ps" by (simp add: upstream_participant_def)
  have 2: "set ?ps
      = {upstream_participant ''P1'' ''10'' ''0'', upstream_participant ''P2'' ''5'' ''5''}"
    by auto
  have 3: "map p_index ?ps = [''P2'', ''P1'']" by (simp add: upstream_participant_def)
  from scenario_a_order [OF 1 2, of 42 10500 0 False] show ?thesis
    by (simp only: 3)
qed

text \<open>
  C9 as stated fails: upstream returns P1 and P2 with the weights and counters of the
  scenario, its active participants in the order P1, P2 and its all-participants answer
  in the order P2, P1. The response lists P2 before P1.
\<close>

theorem scenario_a_order_counterexample:
  "map ep_index (eg_participants (projr (get_current_epoch_participants
       (scenario_a_listing 42 10500
          [upstream_participant ''P2'' ''5'' ''5'', upstream_participant ''P1'' ''10'' ''0'']))))
     = [''P1'', ''P2'']
   \<and> fst (get_current_epoch_stats
       (scenario_a_listing 42 10500
          [upstream_participant ''P2'' ''5'' ''5'', upstream_participant ''P1'' ''10'' ''0''])
       0 False cold)
     = Inr \<lparr>resp_epoch_id = 42, resp_height = 10500,
            resp_participants =
              [\<lparr>index = ''P2'', address = ''P2'', weight = 200, validator_key = None,
                inference_url = None, status = None, models = [],
                current_epoch_stats = stats_of ''5'' ''5'' ''0''\<rparr>,
               \<lparr>index = ''P1'', address = ''P1'', weight = 100, validator_key = None,
                inference_url = None, status = None, models = [],
                current_epoch_stats = stats_of ''10'' ''0'' ''0''\<rparr>],
            resp_is_current = True, resp_total_assigned_rewards_gnk = None\<rparr>"
  by (simp add: scenario_a_listing_def service_eval example_eval Let_def)

text \<open>
  C3 at an input where the code departs from it. Epoch 41 was current and its stats were
  saved at height 10090, which is the canonical height of epoch 41 once epoch 42 starts at
  10100. On the tick that sees epoch 42, the historical fetch of epoch 41 finds these
  stats: it computes the total rewards (5 GNK) but does not mark epoch 41 finished.
\<close>

theorem transition_not_marked_finished:
  "current_epoch_id (during_41 [10090]) = Some 41
   \<and> \<not> is_epoch_finished (cache_db (during_41 [10090])) 41
   \<and> get_current_epoch_participants (scenario_d ''5000000000'')
       = Inr \<lparr>epoch_group_id = 42, effective_block_height = 10100,
              eg_participants = [active_participant ''P1'' 100 []]\<rparr>
   \<and> current_epoch_id
        (snd (get_current_epoch_stats (scenario_d ''5000000000'') 2000 True (during_41 [10090])))
       = Some 42
   \<and> epoch_total_rewards (cache_db
        (snd (get_current_epoch_stats (scenario_d ''5000000000'') 2000 True (during_41 [10090])))) 41
       = Some 5
   \<and> \<not> is_epoch_finished (cache_db
        (snd (get_current_epoch_stats (scenario_d ''5000000000'') 2000 True (during_41 [10090])))) 41"
  by (simp add: service_eval example_eval num_eval)

text \<open>
  The same tick without stats at height 10090: the call marks epoch 41 finished, and it
  does not compute the total rewards itself although \<open>calculate_rewards_sync\<close> is
  \<open>True\<close>: the computation is the first of the tasks it hands to the event loop.
\<close>

lemma transition_cold_rewards_deferred:
  "is_epoch_finished (cache_db
        (snd (get_current_epoch_stats (scenario_d ''5000000000'') 2000 True (during_41 [10050])))) 41
   \<and> created_tasks
        (snd (get_current_epoch_stats (scenario_d ''5000000000'') 2000 True (during_41 [10050])))
       = [CalculateAndCacheTotalRewards 41, EnsureParticipantCaches 41, EnsureParticipantCaches 42]"
  by (simp add: service_eval example_eval num_eval)

end
